theory Spec2Isabelle
  imports Main "HOL-Library.AList"
begin

section \<open>Data model (prisma/schema.prisma)\<close>

text \<open>
  A \<open>DateTime\<close> is the number of milliseconds since the epoch, as a JavaScript \<open>Date\<close>
  holds it. \<open>Json\<close> columns are opaque text. Row identifiers are strings. Only the
  columns that the payments code reads or writes are kept.
\<close>

type_synonym date = int
type_synonym json = string

datatype SubscriptionStatus =
  INCOMPLETE | INCOMPLETE_EXPIRED | TRIALING | ACTIVE | PAST_DUE | CANCELED | UNPAID | PAUSED

datatype PriceType = ONE_TIME | RECURRING

datatype PriceInterval = DAY | WEEK | MONTH | YEAR

text \<open>The members of enum \<open>SubscriptionStatus\<close> in the order the schema declares them.\<close>

definition SubscriptionStatus_members :: "SubscriptionStatus list" where
  "SubscriptionStatus_members =
     [INCOMPLETE, INCOMPLETE_EXPIRED, TRIALING, ACTIVE, PAST_DUE, CANCELED, UNPAID, PAUSED]"

record User =
  u_id :: string
  u_email :: string
  u_firstName :: "string option"
  u_lastName :: "string option"
  u_stripeCustomerId :: "string option"
  u_createdAt :: date
  u_updatedAt :: date

record Product =
  pr_id :: string
  pr_stripeProductId :: string
  pr_name :: string
  pr_description :: "string option"
  pr_metadata :: "json option"
  pr_active :: bool
  pr_createdAt :: date
  pr_updatedAt :: date

record Price =
  p_id :: string
  p_stripePriceId :: string
  p_productId :: string
  p_nickname :: "string option"
  p_currency :: string
  p_type :: PriceType
  p_unitAmount :: "int option"
  p_interval :: "PriceInterval option"
  p_intervalCount :: "int option"
  p_metadata :: "json option"
  p_active :: bool
  p_createdAt :: date
  p_updatedAt :: date

record Subscription =
  s_id :: string
  s_stripeSubscriptionId :: string
  s_userId :: string
  s_priceId :: string
  s_status :: SubscriptionStatus
  s_metadata :: "json option"
  s_cancelAtPeriodEnd :: bool
  s_cancelAt :: "date option"
  s_canceledAt :: "date option"
  s_currentPeriodStart :: date
  s_currentPeriodEnd :: date
  s_createdAt :: date
  s_updatedAt :: date
  s_endedAt :: "date option"
  s_trialStart :: "date option"
  s_trialEnd :: "date option"

record PaymentMethod =
  pm_id :: string
  pm_stripePaymentMethodId :: string
  pm_userId :: string
  pm_type :: string
  pm_last4 :: "string option"
  pm_brand :: "string option"
  pm_expiryMonth :: "int option"
  pm_expiryYear :: "int option"
  pm_isDefault :: bool
  pm_createdAt :: date
  pm_updatedAt :: date

record WebhookEvent =
  we_id :: string
  we_stripeEventId :: string
  we_type :: string
  we_processed :: bool
  we_data :: json
  we_createdAt :: date
  we_processedAt :: "date option"

datatype level = Log | Error

text \<open>
  The stored state: the six tables, each a list of rows in insertion order, and the lines
  written through the Nest \<open>Logger\<close>.
\<close>

record state =
  users :: "User list"
  products :: "Product list"
  prices :: "Price list"
  subscriptions :: "Subscription list"
  paymentMethods :: "PaymentMethod list"
  webhookEvents :: "WebhookEvent list"
  logged :: "(level \<times> string) list"

section \<open>Stripe objects (the fields the code reads)\<close>

record stripe_item =
  si_id :: string
  si_price_id :: string

record stripe_subscription =
  ss_id :: string
  ss_customer :: string
  ss_items :: "stripe_item list"
  ss_status :: string
  ss_cancel_at_period_end :: bool
  ss_cancel_at :: "int option"
  ss_canceled_at :: "int option"
  ss_current_period_start :: int
  ss_current_period_end :: int
  ss_ended_at :: "int option"
  ss_trial_start :: "int option"
  ss_trial_end :: "int option"
  ss_metadata :: json

record stripe_invoice =
  inv_subscription :: "string option"

record stripe_customer =
  sc_id :: string
  sc_email :: "string option"

record stripe_product =
  sp_id :: string
  sp_name :: string
  sp_description :: "string option"
  sp_metadata :: json
  sp_active :: bool

record stripe_recurring =
  rec_interval :: string
  rec_interval_count :: int

record stripe_price =
  spr_id :: string
  spr_product :: string
  spr_nickname :: "string option"
  spr_currency :: string
  spr_type :: string
  spr_unit_amount :: "int option"
  spr_recurring :: "stripe_recurring option"
  spr_metadata :: json
  spr_active :: bool

record stripe_card =
  card_brand :: string
  card_last4 :: string
  card_exp_month :: int
  card_exp_year :: int

record stripe_payment_method =
  spm_id :: string
  spm_customer :: "string option"
  spm_type :: string
  spm_card :: "stripe_card option"

text \<open>
  \<open>Stripe.Event\<close> is a union discriminated by its \<open>type\<close> tag: the tag fixes the type
  of \<open>event.data.object\<close>. \<open>OtherEvent\<close> carries the tag of an event type that
  \<open>processEvent\<close> has no case for.
\<close>

datatype stripe_event_data =
    CustomerSubscriptionCreated stripe_subscription
  | CustomerSubscriptionUpdated stripe_subscription
  | CustomerSubscriptionDeleted stripe_subscription
  | InvoicePaymentSucceeded stripe_invoice
  | InvoicePaymentFailed stripe_invoice
  | CustomerCreated stripe_customer
  | CustomerUpdated stripe_customer
  | ProductCreated stripe_product
  | ProductUpdated stripe_product
  | ProductDeleted stripe_product
  | PriceCreated stripe_price
  | PriceUpdated stripe_price
  | PriceDeleted stripe_price
  | PaymentMethodAttached stripe_payment_method
  | PaymentMethodDetached stripe_payment_method
  | OtherEvent string

record stripe_event =
  ev_id :: string
  ev_data :: stripe_event_data
  ev_json :: json

fun ev_type :: "stripe_event_data \<Rightarrow> string" where
  "ev_type (CustomerSubscriptionCreated _) = ''customer.subscription.created''"
| "ev_type (CustomerSubscriptionUpdated _) = ''customer.subscription.updated''"
| "ev_type (CustomerSubscriptionDeleted _) = ''customer.subscription.deleted''"
| "ev_type (InvoicePaymentSucceeded _) = ''invoice.payment_succeeded''"
| "ev_type (InvoicePaymentFailed _) = ''invoice.payment_failed''"
| "ev_type (CustomerCreated _) = ''customer.created''"
| "ev_type (CustomerUpdated _) = ''customer.updated''"
| "ev_type (ProductCreated _) = ''product.created''"
| "ev_type (ProductUpdated _) = ''product.updated''"
| "ev_type (ProductDeleted _) = ''product.deleted''"
| "ev_type (PriceCreated _) = ''price.created''"
| "ev_type (PriceUpdated _) = ''price.updated''"
| "ev_type (PriceDeleted _) = ''price.deleted''"
| "ev_type (PaymentMethodAttached _) = ''payment_method.attached''"
| "ev_type (PaymentMethodDetached _) = ''payment_method.detached''"
| "ev_type (OtherEvent t) = t"

section \<open>Errors, the environment and the Prisma client\<close>

datatype error =
    PrismaError string
  | NotFoundException string
  | BadRequestException string
  | StripeError string
  | TypeError string

datatype prisma_call =
    WebhookEvent_findUnique | WebhookEvent_upsert | WebhookEvent_update
  | User_findUnique | User_update | User_updateMany
  | Product_findUnique | Product_upsert | Product_updateMany
  | Price_findUnique | Price_upsert | Price_updateMany
  | Subscription_findUnique | Subscription_findFirst | Subscription_upsert
  | Subscription_update | Subscription_updateMany
  | PaymentMethod_upsert | PaymentMethod_delete

datatype table = TProduct | TPrice | TSubscription | TPaymentMethod | TWebhookEvent

text \<open>
  What one invocation takes from outside the store: the instant \<open>new Date()\<close> reads, the
  identifier \<open>cuid()\<close> yields for a row created in a table, and, for every Prisma call, whether
  the database rejects it for a reason of its own (connection lost, timeout): \<open>fault\<close> gives
  the message of that rejection, \<open>None\<close> when the call goes through.
\<close>

record env =
  now :: date
  cuid :: "table \<Rightarrow> string"
  fault :: "prisma_call \<Rightarrow> string option"

text \<open>
  An awaited computation takes the state and returns a value or a thrown error together with
  the state it leaves behind.
\<close>

type_synonym 'a io = "state \<Rightarrow> (error + 'a) \<times> state"

definition ret :: "'a \<Rightarrow> 'a io" where
  "ret x s = (Inr x, s)"

definition throw :: "error \<Rightarrow> 'a io" where
  "throw e s = (Inl e, s)"

definition await :: "'a io \<Rightarrow> ('a \<Rightarrow> 'b io) \<Rightarrow> 'b io" where
  "await m f s = (case m s of (Inl e, s') \<Rightarrow> (Inl e, s') | (Inr x, s') \<Rightarrow> f x s')"

definition catch :: "'a io \<Rightarrow> (error \<Rightarrow> 'a io) \<Rightarrow> 'a io" where
  "catch m h s = (case m s of (Inl e, s') \<Rightarrow> h e s' | (Inr x, s') \<Rightarrow> (Inr x, s'))"

definition logger :: "level \<Rightarrow> string \<Rightarrow> unit io" where
  "logger l msg s = (Inr (), s\<lparr>logged := logged s @ [(l, msg)]\<rparr>)"

text \<open>
  A Prisma call: rejected by the database with the state untouched, or performed. The
  operation itself may fail (\<open>P2025\<close>: record not found, \<open>P2002\<close>: unique constraint),
  also with the state untouched.
\<close>

definition prisma :: "env \<Rightarrow> prisma_call \<Rightarrow> (state \<Rightarrow> error + 'a \<times> state) \<Rightarrow> 'a io" where
  "prisma e c op s =
     (case fault e c of
        Some msg \<Rightarrow> (Inl (PrismaError msg), s)
      | None \<Rightarrow> (case op s of Inl err \<Rightarrow> (Inl err, s) | Inr (x, s') \<Rightarrow> (Inr x, s')))"

fun update_first :: "('a \<Rightarrow> bool) \<Rightarrow> ('a \<Rightarrow> 'a) \<Rightarrow> 'a list \<Rightarrow> 'a list" where
  "update_first P f [] = []"
| "update_first P f (x # xs) = (if P x then f x # xs else x # update_first P f xs)"

fun delete_first :: "('a \<Rightarrow> bool) \<Rightarrow> 'a list \<Rightarrow> 'a list" where
  "delete_first P [] = []"
| "delete_first P (x # xs) = (if P x then xs else x # delete_first P xs)"

definition updateMany :: "('a \<Rightarrow> bool) \<Rightarrow> ('a \<Rightarrow> 'a) \<Rightarrow> 'a list \<Rightarrow> 'a list" where
  "updateMany P f rows = map (\<lambda>r. if P r then f r else r) rows"

text \<open>\<open>update\<close> and \<open>delete\<close> on a unique key throw \<open>P2025\<close> when no row has it.\<close>

definition update_unique :: "('a \<Rightarrow> bool) \<Rightarrow> ('a \<Rightarrow> 'a) \<Rightarrow> 'a list \<Rightarrow> error + 'a list" where
  "update_unique P f rows =
     (if list_ex P rows then Inr (update_first P f rows) else Inl (PrismaError ''P2025''))"

definition delete_unique :: "('a \<Rightarrow> bool) \<Rightarrow> 'a list \<Rightarrow> error + 'a list" where
  "delete_unique P rows =
     (if list_ex P rows then Inr (delete_first P rows) else Inl (PrismaError ''P2025''))"

text \<open>\<open>upsert\<close>: update the row with the key when there is one, append the new row otherwise.\<close>

definition upsert :: "('a \<Rightarrow> bool) \<Rightarrow> ('a \<Rightarrow> 'a) \<Rightarrow> 'a \<Rightarrow> 'a list \<Rightarrow> 'a list" where
  "upsert P f new rows = (if list_ex P rows then update_first P f rows else rows @ [new])"

text \<open>
  Column \<open>users.stripeCustomerId\<close> is \<open>@unique\<close>: setting it to \<open>cid\<close> on the rows that
  satisfy \<open>P\<close> is rejected with \<open>P2002\<close> when a row is written and more than one row would
  hold \<open>cid\<close> afterwards. Columns marked \<open>@updatedAt\<close> are stamped by every update.
\<close>

definition link_customer ::
  "(User \<Rightarrow> bool) \<Rightarrow> string \<Rightarrow> date \<Rightarrow> User list \<Rightarrow> error + User list" where
  "link_customer P cid t rows =
     (if list_ex P rows \<and> 1 < length (filter (\<lambda>u. P u \<or> u_stripeCustomerId u = Some cid) rows)
      then Inl (PrismaError ''P2002'')
      else Inr (updateMany P (\<lambda>u. u\<lparr>u_stripeCustomerId := Some cid, u_updatedAt := t\<rparr>) rows))"

section \<open>WebhookService (src/payments/webhook.service.ts)\<close>

text \<open>
  The service that the controller imports from \<open>./webhook.service\<close>. Its source text
  follows \<open>SubscriptionGuard\<close> in \<open>src/payments/guards/subscription.guard.ts\<close>.
\<close>

subsection \<open>mapSubscriptionStatus\<close>

definition mapSubscriptionStatus :: "string \<Rightarrow> SubscriptionStatus" where
  "mapSubscriptionStatus stripeStatus =
     (if stripeStatus = ''incomplete'' then INCOMPLETE
      else if stripeStatus = ''incomplete_expired'' then INCOMPLETE_EXPIRED
      else if stripeStatus = ''trialing'' then TRIALING
      else if stripeStatus = ''active'' then ACTIVE
      else if stripeStatus = ''past_due'' then PAST_DUE
      else if stripeStatus = ''canceled'' then CANCELED
      else if stripeStatus = ''unpaid'' then UNPAID
      else if stripeStatus = ''paused'' then PAUSED
      else INCOMPLETE)"

text \<open>The status values of \<open>Stripe.Subscription.Status\<close>.\<close>

definition stripe_status_vocabulary :: "string list" where
  "stripe_status_vocabulary =
     [''incomplete'', ''incomplete_expired'', ''trialing'', ''active'', ''past_due'',
      ''canceled'', ''unpaid'', ''paused'']"

subsection \<open>JavaScript helpers\<close>

text \<open>A string that is \<open>null\<close>, \<open>undefined\<close> or empty is falsy; so is the number 0.\<close>

definition truthy :: "string option \<Rightarrow> bool" where
  "truthy x = (case x of None \<Rightarrow> False | Some v \<Rightarrow> v \<noteq> [])"

text \<open>\<open>new Date(t * 1000)\<close> and \<open>t ? new Date(t * 1000) : null\<close>.\<close>

definition toDate :: "int \<Rightarrow> date" where
  "toDate t = t * 1000"

definition optDate :: "int option \<Rightarrow> date option" where
  "optDate x = (case x of None \<Rightarrow> None | Some t \<Rightarrow> if t = 0 then None else Some (toDate t))"

subsection \<open>Reconcilers\<close>

text \<open>The \<open>update\<close> and \<open>create\<close> arguments of the subscription upsert.\<close>

definition subscription_update ::
  "env \<Rightarrow> stripe_subscription \<Rightarrow> SubscriptionStatus \<Rightarrow> Subscription \<Rightarrow> Subscription" where
  "subscription_update e subscription status r =
     r\<lparr>s_status := status,
       s_cancelAtPeriodEnd := ss_cancel_at_period_end subscription,
       s_cancelAt := optDate (ss_cancel_at subscription),
       s_canceledAt := optDate (ss_canceled_at subscription),
       s_currentPeriodStart := toDate (ss_current_period_start subscription),
       s_currentPeriodEnd := toDate (ss_current_period_end subscription),
       s_endedAt := optDate (ss_ended_at subscription),
       s_trialStart := optDate (ss_trial_start subscription),
       s_trialEnd := optDate (ss_trial_end subscription),
       s_metadata := Some (ss_metadata subscription),
       s_updatedAt := now e\<rparr>"

definition subscription_create ::
  "env \<Rightarrow> stripe_subscription \<Rightarrow> User \<Rightarrow> Price \<Rightarrow> SubscriptionStatus \<Rightarrow> Subscription" where
  "subscription_create e subscription user price status =
     \<lparr>s_id = cuid e TSubscription,
      s_stripeSubscriptionId = ss_id subscription,
      s_userId = u_id user,
      s_priceId = p_id price,
      s_status = status,
      s_metadata = Some (ss_metadata subscription),
      s_cancelAtPeriodEnd = ss_cancel_at_period_end subscription,
      s_cancelAt = optDate (ss_cancel_at subscription),
      s_canceledAt = optDate (ss_canceled_at subscription),
      s_currentPeriodStart = toDate (ss_current_period_start subscription),
      s_currentPeriodEnd = toDate (ss_current_period_end subscription),
      s_createdAt = now e,
      s_updatedAt = now e,
      s_endedAt = optDate (ss_ended_at subscription),
      s_trialStart = optDate (ss_trial_start subscription),
      s_trialEnd = optDate (ss_trial_end subscription)\<rparr>"

definition handleSubscriptionUpdated :: "env \<Rightarrow> stripe_subscription \<Rightarrow> unit io" where
  "handleSubscriptionUpdated e subscription =
     await (prisma e User_findUnique
        (\<lambda>s. Inr (find (\<lambda>u. u_stripeCustomerId u = Some (ss_customer subscription)) (users s), s)))
     (\<lambda>user. case user of
        None \<Rightarrow> logger Error (''User not found for customer: '' @ ss_customer subscription)
      | Some user \<Rightarrow>
         (let stripePriceId =
                (case ss_items subscription of [] \<Rightarrow> None | item # _ \<Rightarrow> Some (si_price_id item))
          in if \<not> truthy stripePriceId
             then logger Error (''No price found for subscription: '' @ ss_id subscription)
             else
               await (prisma e Price_findUnique
                  (\<lambda>s. Inr (find (\<lambda>p. Some (p_stripePriceId p) = stripePriceId) (prices s), s)))
               (\<lambda>price. case price of
                  None \<Rightarrow>
                    logger Error (''Price not found for Stripe price: ''
                                  @ (case stripePriceId of Some i \<Rightarrow> i | None \<Rightarrow> []))
                | Some price \<Rightarrow>
                   (let status = mapSubscriptionStatus (ss_status subscription)
                    in prisma e Subscription_upsert
                      (\<lambda>s. Inr ((), s\<lparr>subscriptions :=
                         upsert (\<lambda>r. s_stripeSubscriptionId r = ss_id subscription)
                           (subscription_update e subscription status)
                           (subscription_create e subscription user price status)
                           (subscriptions s)\<rparr>))))))"

definition handleSubscriptionDeleted :: "env \<Rightarrow> stripe_subscription \<Rightarrow> unit io" where
  "handleSubscriptionDeleted e subscription =
     prisma e Subscription_updateMany
       (\<lambda>s. Inr ((), s\<lparr>subscriptions :=
          updateMany (\<lambda>r. s_stripeSubscriptionId r = ss_id subscription)
            (\<lambda>r. r\<lparr>s_status := CANCELED, s_endedAt := Some (now e), s_updatedAt := now e\<rparr>)
            (subscriptions s)\<rparr>))"

definition handleInvoicePaymentSucceeded :: "env \<Rightarrow> stripe_invoice \<Rightarrow> unit io" where
  "handleInvoicePaymentSucceeded e invoice =
     (if truthy (inv_subscription invoice) then
        await (prisma e Subscription_findUnique
           (\<lambda>s. Inr (find (\<lambda>r. Some (s_stripeSubscriptionId r) = inv_subscription invoice)
                        (subscriptions s), s)))
        (\<lambda>subscription. case subscription of
           None \<Rightarrow> ret ()
         | Some subscription \<Rightarrow>
            if s_status subscription \<noteq> ACTIVE then
              prisma e Subscription_update
                (\<lambda>s. case update_unique (\<lambda>r. s_id r = s_id subscription)
                              (\<lambda>r. r\<lparr>s_status := ACTIVE, s_updatedAt := now e\<rparr>) (subscriptions s) of
                        Inl err \<Rightarrow> Inl err
                      | Inr rows \<Rightarrow> Inr ((), s\<lparr>subscriptions := rows\<rparr>))
            else ret ())
      else ret ())"

definition handleInvoicePaymentFailed :: "env \<Rightarrow> stripe_invoice \<Rightarrow> unit io" where
  "handleInvoicePaymentFailed e invoice =
     (if truthy (inv_subscription invoice) then
        prisma e Subscription_updateMany
          (\<lambda>s. Inr ((), s\<lparr>subscriptions :=
             updateMany (\<lambda>r. Some (s_stripeSubscriptionId r) = inv_subscription invoice)
               (\<lambda>r. r\<lparr>s_status := PAST_DUE, s_updatedAt := now e\<rparr>) (subscriptions s)\<rparr>))
      else ret ())"

definition handleCustomerCreated :: "env \<Rightarrow> stripe_customer \<Rightarrow> unit io" where
  "handleCustomerCreated e customer =
     (if truthy (sc_email customer) then
        prisma e User_updateMany
          (\<lambda>s. case link_customer
                       (\<lambda>u. Some (u_email u) = sc_email customer \<and> u_stripeCustomerId u = None)
                       (sc_id customer) (now e) (users s) of
                  Inl err \<Rightarrow> Inl err
                | Inr rows \<Rightarrow> Inr ((), s\<lparr>users := rows\<rparr>))
      else ret ())"

definition handleCustomerUpdated :: "env \<Rightarrow> stripe_customer \<Rightarrow> unit io" where
  "handleCustomerUpdated e customer =
     (if truthy (sc_email customer) then
        prisma e User_updateMany
          (\<lambda>s. Inr ((), s\<lparr>users :=
             updateMany (\<lambda>u. u_stripeCustomerId u = Some (sc_id customer))
               (\<lambda>u. u\<lparr>u_updatedAt := now e\<rparr>) (users s)\<rparr>))
      else ret ())"

definition handleProductUpdated :: "env \<Rightarrow> stripe_product \<Rightarrow> unit io" where
  "handleProductUpdated e product =
     prisma e Product_upsert
       (\<lambda>s. Inr ((), s\<lparr>products :=
          upsert (\<lambda>r. pr_stripeProductId r = sp_id product)
            (\<lambda>r. r\<lparr>pr_name := sp_name product,
                   pr_description := sp_description product,
                   pr_metadata := Some (sp_metadata product),
                   pr_active := sp_active product,
                   pr_updatedAt := now e\<rparr>)
            \<lparr>pr_id = cuid e TProduct,
             pr_stripeProductId = sp_id product,
             pr_name = sp_name product,
             pr_description = sp_description product,
             pr_metadata = Some (sp_metadata product),
             pr_active = sp_active product,
             pr_createdAt = now e,
             pr_updatedAt = now e\<rparr>
            (products s)\<rparr>))"

definition handleProductDeleted :: "env \<Rightarrow> stripe_product \<Rightarrow> unit io" where
  "handleProductDeleted e product =
     prisma e Product_updateMany
       (\<lambda>s. Inr ((), s\<lparr>products :=
          updateMany (\<lambda>r. pr_stripeProductId r = sp_id product)
            (\<lambda>r. r\<lparr>pr_active := False, pr_updatedAt := now e\<rparr>) (products s)\<rparr>))"

definition mapInterval :: "string \<Rightarrow> PriceInterval option" where
  "mapInterval i =
     (if i = ''day'' then Some DAY
      else if i = ''week'' then Some WEEK
      else if i = ''month'' then Some MONTH
      else if i = ''year'' then Some YEAR
      else None)"

definition handlePriceUpdated :: "env \<Rightarrow> stripe_price \<Rightarrow> unit io" where
  "handlePriceUpdated e price =
     await (prisma e Product_findUnique
        (\<lambda>s. Inr (find (\<lambda>r. pr_stripeProductId r = spr_product price) (products s), s)))
     (\<lambda>product. case product of
        None \<Rightarrow> logger Error (''Product not found for price: '' @ spr_id price)
      | Some product \<Rightarrow>
         (let priceType = (if spr_type price = ''recurring'' then RECURRING else ONE_TIME);
              interval = (case spr_recurring price of
                            None \<Rightarrow> None | Some r \<Rightarrow> mapInterval (rec_interval r));
              intervalCount = (case spr_recurring price of
                                 None \<Rightarrow> None | Some r \<Rightarrow> Some (rec_interval_count r))
          in prisma e Price_upsert
            (\<lambda>s. Inr ((), s\<lparr>prices :=
               upsert (\<lambda>r. p_stripePriceId r = spr_id price)
                 (\<lambda>r. r\<lparr>p_nickname := spr_nickname price,
                        p_currency := spr_currency price,
                        p_type := priceType,
                        p_unitAmount := spr_unit_amount price,
                        p_interval := interval,
                        p_intervalCount := intervalCount,
                        p_metadata := Some (spr_metadata price),
                        p_active := spr_active price,
                        p_updatedAt := now e\<rparr>)
                 \<lparr>p_id = cuid e TPrice,
                  p_stripePriceId = spr_id price,
                  p_productId = pr_id product,
                  p_nickname = spr_nickname price,
                  p_currency = spr_currency price,
                  p_type = priceType,
                  p_unitAmount = spr_unit_amount price,
                  p_interval = interval,
                  p_intervalCount = intervalCount,
                  p_metadata = Some (spr_metadata price),
                  p_active = spr_active price,
                  p_createdAt = now e,
                  p_updatedAt = now e\<rparr>
                 (prices s)\<rparr>))))"

definition handlePriceDeleted :: "env \<Rightarrow> stripe_price \<Rightarrow> unit io" where
  "handlePriceDeleted e price =
     prisma e Price_updateMany
       (\<lambda>s. Inr ((), s\<lparr>prices :=
          updateMany (\<lambda>r. p_stripePriceId r = spr_id price)
            (\<lambda>r. r\<lparr>p_active := False, p_updatedAt := now e\<rparr>) (prices s)\<rparr>))"

definition handlePaymentMethodAttached :: "env \<Rightarrow> stripe_payment_method \<Rightarrow> unit io" where
  "handlePaymentMethodAttached e paymentMethod =
     (if \<not> truthy (spm_customer paymentMethod) then ret ()
      else
        await (prisma e User_findUnique
           (\<lambda>s. Inr (find (\<lambda>u. u_stripeCustomerId u = spm_customer paymentMethod) (users s), s)))
        (\<lambda>user. case user of
           None \<Rightarrow> ret ()
         | Some user \<Rightarrow>
            (let brand = map_option card_brand (spm_card paymentMethod);
                 last4 = map_option card_last4 (spm_card paymentMethod);
                 expiryMonth = map_option card_exp_month (spm_card paymentMethod);
                 expiryYear = map_option card_exp_year (spm_card paymentMethod)
             in prisma e PaymentMethod_upsert
               (\<lambda>s. Inr ((), s\<lparr>paymentMethods :=
                  upsert (\<lambda>r. pm_stripePaymentMethodId r = spm_id paymentMethod)
                    (\<lambda>r. r\<lparr>pm_type := spm_type paymentMethod,
                           pm_brand := brand,
                           pm_last4 := last4,
                           pm_expiryMonth := expiryMonth,
                           pm_expiryYear := expiryYear,
                           pm_updatedAt := now e\<rparr>)
                    \<lparr>pm_id = cuid e TPaymentMethod,
                     pm_stripePaymentMethodId = spm_id paymentMethod,
                     pm_userId = u_id user,
                     pm_type = spm_type paymentMethod,
                     pm_last4 = last4,
                     pm_brand = brand,
                     pm_expiryMonth = expiryMonth,
                     pm_expiryYear = expiryYear,
                     pm_isDefault = False,
                     pm_createdAt = now e,
                     pm_updatedAt = now e\<rparr>
                    (paymentMethods s)\<rparr>)))))"

definition handlePaymentMethodDetached :: "env \<Rightarrow> stripe_payment_method \<Rightarrow> unit io" where
  "handlePaymentMethodDetached e paymentMethod =
     catch
       (prisma e PaymentMethod_delete
          (\<lambda>s. case delete_unique (\<lambda>r. pm_stripePaymentMethodId r = spm_id paymentMethod)
                        (paymentMethods s) of
                  Inl err \<Rightarrow> Inl err
                | Inr rows \<Rightarrow> Inr ((), s\<lparr>paymentMethods := rows\<rparr>)))
       (\<lambda>_. ret ())"

subsection \<open>Routing and the idempotency ledger\<close>

fun processEvent :: "env \<Rightarrow> stripe_event \<Rightarrow> unit io" where
  "processEvent e event =
     (case ev_data event of
        CustomerSubscriptionCreated obj \<Rightarrow> handleSubscriptionUpdated e obj
      | CustomerSubscriptionUpdated obj \<Rightarrow> handleSubscriptionUpdated e obj
      | CustomerSubscriptionDeleted obj \<Rightarrow> handleSubscriptionDeleted e obj
      | InvoicePaymentSucceeded obj \<Rightarrow> handleInvoicePaymentSucceeded e obj
      | InvoicePaymentFailed obj \<Rightarrow> handleInvoicePaymentFailed e obj
      | CustomerCreated obj \<Rightarrow> handleCustomerCreated e obj
      | CustomerUpdated obj \<Rightarrow> handleCustomerUpdated e obj
      | ProductCreated obj \<Rightarrow> handleProductUpdated e obj
      | ProductUpdated obj \<Rightarrow> handleProductUpdated e obj
      | ProductDeleted obj \<Rightarrow> handleProductDeleted e obj
      | PriceCreated obj \<Rightarrow> handlePriceUpdated e obj
      | PriceUpdated obj \<Rightarrow> handlePriceUpdated e obj
      | PriceDeleted obj \<Rightarrow> handlePriceDeleted e obj
      | PaymentMethodAttached obj \<Rightarrow> handlePaymentMethodAttached e obj
      | PaymentMethodDetached obj \<Rightarrow> handlePaymentMethodDetached e obj
      | OtherEvent t \<Rightarrow> logger Log (''Unhandled webhook event type: '' @ t))"

definition ledger_find :: "string \<Rightarrow> WebhookEvent list \<Rightarrow> WebhookEvent option" where
  "ledger_find eid rows = find (\<lambda>r. we_stripeEventId r = eid) rows"

definition webhookEvent_findUnique :: "env \<Rightarrow> string \<Rightarrow> WebhookEvent option io" where
  "webhookEvent_findUnique e eid =
     prisma e WebhookEvent_findUnique (\<lambda>s. Inr (ledger_find eid (webhookEvents s), s))"

definition ledger_upsert :: "env \<Rightarrow> stripe_event \<Rightarrow> WebhookEvent list \<Rightarrow> WebhookEvent list" where
  "ledger_upsert e event rows =
     upsert (\<lambda>r. we_stripeEventId r = ev_id event)
       (\<lambda>r. r\<lparr>we_type := ev_type (ev_data event), we_data := ev_json event\<rparr>)
       \<lparr>we_id = cuid e TWebhookEvent,
        we_stripeEventId = ev_id event,
        we_type = ev_type (ev_data event),
        we_processed = False,
        we_data = ev_json event,
        we_createdAt = now e,
        we_processedAt = None\<rparr>
       rows"

definition webhookEvent_upsert :: "env \<Rightarrow> stripe_event \<Rightarrow> unit io" where
  "webhookEvent_upsert e event =
     prisma e WebhookEvent_upsert
       (\<lambda>s. Inr ((), s\<lparr>webhookEvents := ledger_upsert e event (webhookEvents s)\<rparr>))"

definition ledger_mark :: "env \<Rightarrow> string \<Rightarrow> WebhookEvent list \<Rightarrow> error + WebhookEvent list" where
  "ledger_mark e eid rows =
     update_unique (\<lambda>r. we_stripeEventId r = eid)
       (\<lambda>r. r\<lparr>we_processed := True, we_processedAt := Some (now e)\<rparr>) rows"

definition webhookEvent_markProcessed :: "env \<Rightarrow> string \<Rightarrow> unit io" where
  "webhookEvent_markProcessed e eid =
     prisma e WebhookEvent_update
       (\<lambda>s. case ledger_mark e eid (webhookEvents s) of
               Inl err \<Rightarrow> Inl err
             | Inr rows \<Rightarrow> Inr ((), s\<lparr>webhookEvents := rows\<rparr>))"

definition processed :: "WebhookEvent option \<Rightarrow> bool" where
  "processed existingEvent = (case existingEvent of None \<Rightarrow> False | Some r \<Rightarrow> we_processed r)"

definition handleWebhookEvent :: "env \<Rightarrow> stripe_event \<Rightarrow> unit io" where
  "handleWebhookEvent e event =
     await (webhookEvent_findUnique e (ev_id event))
     (\<lambda>existingEvent.
        if processed existingEvent
        then logger Log (''Event '' @ ev_id event @ '' already processed, skipping'')
        else
          await (webhookEvent_upsert e event)
          (\<lambda>_. catch
             (await (processEvent e event)
              (\<lambda>_. await (webhookEvent_markProcessed e (ev_id event))
              (\<lambda>_. logger Log (''Successfully processed webhook event: '' @ ev_type (ev_data event)))))
             (\<lambda>err. await (logger Error (''Failed to process webhook event '' @ ev_id event @ '':''))
                     (\<lambda>_. throw err))))"

section \<open>StripeService (src/payments/stripe.service.ts)\<close>

record checkout_session =
  cs_id :: string
  cs_url :: "string option"

record portal_session =
  ps_url :: string

record checkout_params =
  cp_priceId :: string
  cp_customerId :: string
  cp_successUrl :: string
  cp_cancelUrl :: string
  cp_trialPeriodDays :: "int option"
  cp_metadata :: "(string \<times> string) list"

datatype subscription_update_params =
    CancelAtPeriodEnd bool
  | ItemPrice string string

text \<open>
  The Stripe SDK is outside the repository: each method is a function from the request to the
  response or the error the processor answers with.
\<close>

record stripe_sdk =
  sdk_customers_create :: "string \<Rightarrow> string option \<Rightarrow> error + stripe_customer"
  sdk_checkout_sessions_create :: "checkout_params \<Rightarrow> error + checkout_session"
  sdk_billingPortal_sessions_create :: "string \<Rightarrow> string \<Rightarrow> error + portal_session"
  sdk_subscriptions_cancel :: "string \<Rightarrow> error + stripe_subscription"
  sdk_subscriptions_update :: "string \<Rightarrow> subscription_update_params \<Rightarrow> error + stripe_subscription"
  sdk_subscriptions_retrieve :: "string \<Rightarrow> error + stripe_subscription"
  sdk_webhooks_constructEvent :: "string \<Rightarrow> string \<Rightarrow> error + stripe_event"

definition stripe_call :: "error + 'a \<Rightarrow> 'a io" where
  "stripe_call r s = (r, s)"

definition stripeService_cancelSubscription ::
  "stripe_sdk \<Rightarrow> string \<Rightarrow> bool \<Rightarrow> error + stripe_subscription" where
  "stripeService_cancelSubscription sdk subscriptionId immediate =
     (if immediate then sdk_subscriptions_cancel sdk subscriptionId
      else sdk_subscriptions_update sdk subscriptionId (CancelAtPeriodEnd True))"

definition stripeService_reactivateSubscription ::
  "stripe_sdk \<Rightarrow> string \<Rightarrow> error + stripe_subscription" where
  "stripeService_reactivateSubscription sdk subscriptionId =
     sdk_subscriptions_update sdk subscriptionId (CancelAtPeriodEnd False)"

definition stripeService_updateSubscription ::
  "stripe_sdk \<Rightarrow> string \<Rightarrow> string \<Rightarrow> error + stripe_subscription" where
  "stripeService_updateSubscription sdk subscriptionId newPriceId =
     (case sdk_subscriptions_retrieve sdk subscriptionId of
        Inl err \<Rightarrow> Inl err
      | Inr subscription \<Rightarrow>
         (case ss_items subscription of
            [] \<Rightarrow> Inl (TypeError ''Cannot read properties of undefined (reading 'id')'')
          | item # _ \<Rightarrow> sdk_subscriptions_update sdk subscriptionId (ItemPrice (si_id item) newPriceId)))"

section \<open>PaymentsService (src/payments/payments.service.ts)\<close>

record CreateCheckoutSessionDto =
  dto_priceId :: string
  dto_successUrl :: string
  dto_cancelUrl :: string
  dto_trialPeriodDays :: "int option"
  dto_metadata :: "(string \<times> string) list"

text \<open>\<open>String.prototype.trim\<close> on ASCII white space, and a nullable string in a template.\<close>

definition is_space :: "char \<Rightarrow> bool" where
  "is_space c = (c \<in> set [CHR '' '', CHR 0x09, CHR 0x0A, CHR 0x0B, CHR 0x0C, CHR 0x0D])"

definition trim :: "string \<Rightarrow> string" where
  "trim x = rev (dropWhile is_space (rev (dropWhile is_space x)))"

definition interpolate :: "string option \<Rightarrow> string" where
  "interpolate x = (case x of None \<Rightarrow> ''null'' | Some v \<Rightarrow> v)"

text \<open>The name sent with a new customer: the trimmed template, or \<open>undefined\<close> when empty.\<close>

definition customer_name :: "User \<Rightarrow> string option" where
  "customer_name user =
     (let name = trim (interpolate (u_firstName user) @ '' '' @ interpolate (u_lastName user))
      in if name = [] then None else Some name)"

text \<open>\<open>prisma.user.update\<close> of \<open>stripeCustomerId\<close> on the row with the given id.\<close>

definition user_update_stripeCustomerId ::
  "string \<Rightarrow> string \<Rightarrow> date \<Rightarrow> User list \<Rightarrow> error + User list" where
  "user_update_stripeCustomerId userId cid t rows =
     (if list_ex (\<lambda>u. u_id u = userId) rows then link_customer (\<lambda>u. u_id u = userId) cid t rows
      else Inl (PrismaError ''P2025''))"

text \<open>
  \<open>createCheckoutSession\<close> in its three parts: the user lookup, the block under
  ``Ensure user has a Stripe customer ID'', and the block under ``Verify the price exists in
  our database'' with the call that creates the session.
\<close>

definition ensureStripeCustomer :: "env \<Rightarrow> stripe_sdk \<Rightarrow> string \<Rightarrow> User \<Rightarrow> string io" where
  "ensureStripeCustomer e sdk userId user =
     (if \<not> truthy (u_stripeCustomerId user) then
        await (stripe_call (sdk_customers_create sdk (u_email user) (customer_name user)))
        (\<lambda>customer.
           await (prisma e User_update
              (\<lambda>s. case user_update_stripeCustomerId userId (sc_id customer) (now e) (users s) of
                      Inl err \<Rightarrow> Inl err
                    | Inr rows \<Rightarrow> Inr ((), s\<lparr>users := rows\<rparr>)))
           (\<lambda>_. ret (sc_id customer)))
      else ret (case u_stripeCustomerId user of Some i \<Rightarrow> i | None \<Rightarrow> []))"

definition checkoutForPrice ::
  "env \<Rightarrow> stripe_sdk \<Rightarrow> string \<Rightarrow> CreateCheckoutSessionDto \<Rightarrow> string \<Rightarrow> checkout_session io" where
  "checkoutForPrice e sdk userId dto stripeCustomerId =
     await (prisma e Price_findUnique
        (\<lambda>s. Inr (find (\<lambda>p. p_stripePriceId p = dto_priceId dto) (prices s), s)))
     (\<lambda>price. case price of
        None \<Rightarrow> throw (BadRequestException ''Invalid or inactive price'')
      | Some price \<Rightarrow>
         if \<not> p_active price then throw (BadRequestException ''Invalid or inactive price'')
         else stripe_call (sdk_checkout_sessions_create sdk
                \<lparr>cp_priceId = dto_priceId dto,
                 cp_customerId = stripeCustomerId,
                 cp_successUrl = dto_successUrl dto,
                 cp_cancelUrl = dto_cancelUrl dto,
                 cp_trialPeriodDays =
                   (case dto_trialPeriodDays dto of
                      None \<Rightarrow> None | Some d \<Rightarrow> if d = 0 then None else Some d),
                 cp_metadata =
                   AList.update ''priceId'' (p_id price)
                     (AList.update ''userId'' userId (dto_metadata dto))\<rparr>))"

definition createCheckoutSession ::
  "env \<Rightarrow> stripe_sdk \<Rightarrow> string \<Rightarrow> CreateCheckoutSessionDto \<Rightarrow> checkout_session io" where
  "createCheckoutSession e sdk userId dto =
     await (prisma e User_findUnique (\<lambda>s. Inr (find (\<lambda>u. u_id u = userId) (users s), s)))
     (\<lambda>user. case user of
        None \<Rightarrow> throw (NotFoundException ''User not found'')
      | Some user \<Rightarrow>
         await (ensureStripeCustomer e sdk userId user) (checkoutForPrice e sdk userId dto))"

definition createPortalSession ::
  "env \<Rightarrow> stripe_sdk \<Rightarrow> string option \<Rightarrow> string \<Rightarrow> portal_session io" where
  "createPortalSession e sdk appUrl userId =
     await (prisma e User_findUnique (\<lambda>s. Inr (find (\<lambda>u. u_id u = userId) (users s), s)))
     (\<lambda>user. case user of
        None \<Rightarrow> throw (NotFoundException ''User or Stripe customer not found'')
      | Some user \<Rightarrow>
         if \<not> truthy (u_stripeCustomerId user)
         then throw (NotFoundException ''User or Stripe customer not found'')
         else
           (let returnUrl = (case appUrl of None \<Rightarrow> ''undefined'' | Some u \<Rightarrow> u) @ ''/dashboard''
            in stripe_call (sdk_billingPortal_sessions_create sdk
                 (case u_stripeCustomerId user of Some i \<Rightarrow> i | None \<Rightarrow> []) returnUrl)))"

definition cancelSubscription ::
  "env \<Rightarrow> stripe_sdk \<Rightarrow> string \<Rightarrow> string \<Rightarrow> bool \<Rightarrow> (bool \<times> bool) io" where
  "cancelSubscription e sdk userId subscriptionId immediate =
     await (prisma e Subscription_findFirst
        (\<lambda>s. Inr (find (\<lambda>r. s_id r = subscriptionId \<and> s_userId r = userId) (subscriptions s), s)))
     (\<lambda>subscription. case subscription of
        None \<Rightarrow> throw (NotFoundException ''Subscription not found'')
      | Some subscription \<Rightarrow>
         await (stripe_call (stripeService_cancelSubscription sdk
                  (s_stripeSubscriptionId subscription) immediate))
         (\<lambda>updatedSubscription.
            await (prisma e Subscription_update
               (\<lambda>s. case update_unique (\<lambda>r. s_id r = subscriptionId)
                             (\<lambda>r. r\<lparr>s_cancelAtPeriodEnd := ss_cancel_at_period_end updatedSubscription,
                                    s_cancelAt := optDate (ss_cancel_at updatedSubscription),
                                    s_status := (if immediate then CANCELED else s_status subscription),
                                    s_updatedAt := now e\<rparr>)
                             (subscriptions s) of
                       Inl err \<Rightarrow> Inl err
                     | Inr rows \<Rightarrow> Inr ((), s\<lparr>subscriptions := rows\<rparr>)))
            (\<lambda>_. ret (True, immediate))))"

definition reactivateSubscription :: "env \<Rightarrow> stripe_sdk \<Rightarrow> string \<Rightarrow> string \<Rightarrow> bool io" where
  "reactivateSubscription e sdk userId subscriptionId =
     await (prisma e Subscription_findFirst
        (\<lambda>s. Inr (find (\<lambda>r. s_id r = subscriptionId \<and> s_userId r = userId \<and> s_cancelAtPeriodEnd r)
                     (subscriptions s), s)))
     (\<lambda>subscription. case subscription of
        None \<Rightarrow>
          throw (NotFoundException ''Subscription not found or not eligible for reactivation'')
      | Some subscription \<Rightarrow>
         await (stripe_call (stripeService_reactivateSubscription sdk
                  (s_stripeSubscriptionId subscription)))
         (\<lambda>updatedSubscription.
            await (prisma e Subscription_update
               (\<lambda>s. case update_unique (\<lambda>r. s_id r = subscriptionId)
                             (\<lambda>r. r\<lparr>s_cancelAtPeriodEnd := False,
                                    s_cancelAt := None,
                                    s_updatedAt := now e\<rparr>)
                             (subscriptions s) of
                       Inl err \<Rightarrow> Inl err
                     | Inr rows \<Rightarrow> Inr ((), s\<lparr>subscriptions := rows\<rparr>)))
            (\<lambda>_. ret True)))"

definition changeSubscription ::
  "env \<Rightarrow> stripe_sdk \<Rightarrow> string \<Rightarrow> string \<Rightarrow> string \<Rightarrow> bool io" where
  "changeSubscription e sdk userId subscriptionId newPriceId =
     await (prisma e Subscription_findFirst
        (\<lambda>s. Inr (find (\<lambda>r. s_id r = subscriptionId \<and> s_userId r = userId) (subscriptions s), s)))
     (\<lambda>subscription. case subscription of
        None \<Rightarrow> throw (NotFoundException ''Subscription not found'')
      | Some subscription \<Rightarrow>
         await (prisma e Price_findUnique
            (\<lambda>s. Inr (find (\<lambda>p. p_stripePriceId p = newPriceId) (prices s), s)))
         (\<lambda>newPrice. case newPrice of
            None \<Rightarrow> throw (BadRequestException ''Invalid or inactive price'')
          | Some newPrice \<Rightarrow>
             if \<not> p_active newPrice then throw (BadRequestException ''Invalid or inactive price'')
             else
               await (stripe_call (stripeService_updateSubscription sdk
                        (s_stripeSubscriptionId subscription) newPriceId))
               (\<lambda>updatedSubscription.
                  await (prisma e Subscription_update
                     (\<lambda>s. case update_unique (\<lambda>r. s_id r = subscriptionId)
                                   (\<lambda>r. r\<lparr>s_priceId := p_id newPrice, s_updatedAt := now e\<rparr>)
                                   (subscriptions s) of
                             Inl err \<Rightarrow> Inl err
                           | Inr rows \<Rightarrow> Inr ((), s\<lparr>subscriptions := rows\<rparr>)))
                  (\<lambda>_. ret True))))"

text \<open>The \<open>where\<close> clause of the entitlement query.\<close>

definition entitled :: "date \<Rightarrow> string \<Rightarrow> Subscription \<Rightarrow> bool" where
  "entitled t userId r =
     (s_userId r = userId \<and> s_status r \<in> set [ACTIVE, TRIALING] \<and> t < s_currentPeriodEnd r)"

definition hasActiveSubscription :: "env \<Rightarrow> string \<Rightarrow> bool io" where
  "hasActiveSubscription e userId =
     await (prisma e Subscription_findFirst
        (\<lambda>s. Inr (find (entitled (now e) userId) (subscriptions s), s)))
     (\<lambda>activeSubscription. ret (activeSubscription \<noteq> None))"

section \<open>PaymentsController.handleWebhook (src/payments/payments.controller.ts)\<close>

fun message :: "error \<Rightarrow> string" where
  "message (PrismaError m) = m"
| "message (NotFoundException m) = m"
| "message (BadRequestException m) = m"
| "message (StripeError m) = m"
| "message (TypeError m) = m"

text \<open>
  The status an exception leaves the endpoint with: that of the \<open>HttpException\<close>, and 500
  for any other error.
\<close>

fun getStatus :: "error \<Rightarrow> nat" where
  "getStatus (BadRequestException _) = 400"
| "getStatus (NotFoundException _) = 404"
| "getStatus _ = 500"

datatype received = Received bool

text \<open>The endpoint is declared \<open>@HttpCode(HttpStatus.OK)\<close>.\<close>

definition http_status :: "error + received \<Rightarrow> nat" where
  "http_status r = (case r of Inl err \<Rightarrow> getStatus err | Inr _ \<Rightarrow> 200)"

definition handleWebhook ::
  "env \<Rightarrow> stripe_sdk \<Rightarrow> string option \<Rightarrow> string option \<Rightarrow> received io" where
  "handleWebhook e sdk rawBody signature =
     (if \<not> truthy signature then throw (BadRequestException ''Missing stripe-signature header'')
      else
        catch
          (case rawBody of
             None \<Rightarrow> throw (BadRequestException ''Missing request body'')
           | Some payload \<Rightarrow>
              await (stripe_call (sdk_webhooks_constructEvent sdk payload
                       (case signature of Some sig \<Rightarrow> sig | None \<Rightarrow> [])))
              (\<lambda>event. await (handleWebhookEvent e event) (\<lambda>_. ret (Received True))))
          (\<lambda>err. await (logger Error ''Webhook error:'')
                  (\<lambda>_. throw (BadRequestException (message err)))))"

section \<open>Concurrent deliveries\<close>

text \<open>
  \<open>handleWebhookEvent\<close> awaits four times: the ledger read, the ledger upsert, the
  reconciler, the ledger update. Between two awaits of one delivery another delivery may run.
  A delivery is at one of these points, or has returned, or has thrown.
\<close>

datatype pc = AtFind | AtUpsert | AtProcess | AtMark | Returned | Thrown error

definition step :: "env \<Rightarrow> stripe_event \<Rightarrow> pc \<Rightarrow> state \<Rightarrow> pc \<times> state" where
  "step e event p s =
     (case p of
        AtFind \<Rightarrow>
          (case webhookEvent_findUnique e (ev_id event) s of
             (Inl err, s') \<Rightarrow> (Thrown err, s')
           | (Inr existingEvent, s') \<Rightarrow>
               if processed existingEvent
               then (Returned,
                     snd (logger Log (''Event '' @ ev_id event @ '' already processed, skipping'') s'))
               else (AtUpsert, s'))
      | AtUpsert \<Rightarrow>
          (case webhookEvent_upsert e event s of
             (Inl err, s') \<Rightarrow> (Thrown err, s')
           | (Inr _, s') \<Rightarrow> (AtProcess, s'))
      | AtProcess \<Rightarrow>
          (case processEvent e event s of
             (Inl err, s') \<Rightarrow>
               (Thrown err,
                snd (logger Error (''Failed to process webhook event '' @ ev_id event @ '':'') s'))
           | (Inr _, s') \<Rightarrow> (AtMark, s'))
      | AtMark \<Rightarrow>
          (case webhookEvent_markProcessed e (ev_id event) s of
             (Inl err, s') \<Rightarrow>
               (Thrown err,
                snd (logger Error (''Failed to process webhook event '' @ ev_id event @ '':'') s'))
           | (Inr _, s') \<Rightarrow>
               (Returned,
                snd (logger Log (''Successfully processed webhook event: ''
                                 @ ev_type (ev_data event)) s')))
      | Returned \<Rightarrow> (Returned, s)
      | Thrown err \<Rightarrow> (Thrown err, s))"

text \<open>
  Two deliveries A and B of one event over the shared store, each with its own clock. A
  schedule names the delivery that takes the next step (\<open>True\<close> for A). \<open>reconciled\<close>
  counts how often a delivery entered the reconciler.
\<close>

record config =
  pcA :: pc
  pcB :: pc
  store :: state
  reconciled :: nat

definition sched_step :: "env \<Rightarrow> env \<Rightarrow> stripe_event \<Rightarrow> bool \<Rightarrow> config \<Rightarrow> config" where
  "sched_step eA eB event a c =
     (if a then
        (case step eA event (pcA c) (store c) of
           (p, s) \<Rightarrow> c\<lparr>pcA := p, store := s,
                       reconciled := reconciled c + (if pcA c = AtProcess then 1 else 0)\<rparr>)
      else
        (case step eB event (pcB c) (store c) of
           (p, s) \<Rightarrow> c\<lparr>pcB := p, store := s,
                       reconciled := reconciled c + (if pcB c = AtProcess then 1 else 0)\<rparr>))"

definition run :: "env \<Rightarrow> env \<Rightarrow> stripe_event \<Rightarrow> bool list \<Rightarrow> config \<Rightarrow> config" where
  "run eA eB event schedule c = fold (sched_step eA eB event) schedule c"

definition start :: "state \<Rightarrow> config" where
  "start s = \<lparr>pcA = AtFind, pcB = AtFind, store = s, reconciled = 0\<rparr>"

text \<open>What a delivery that ran to its end hands to its caller.\<close>

definition outcome :: "pc \<Rightarrow> (error + unit) option" where
  "outcome p = (case p of Returned \<Rightarrow> Some (Inr ()) | Thrown err \<Rightarrow> Some (Inl err) | _ \<Rightarrow> None)"

section \<open>Referential integrity\<close>

text \<open>
  The relations of model \<open>Subscription\<close>: \<open>userId\<close> references a user and
  \<open>priceId\<close> references a price.
\<close>

definition fk_ok :: "state \<Rightarrow> bool" where
  "fk_ok s =
     list_all (\<lambda>r. list_ex (\<lambda>u. u_id u = s_userId r) (users s)
                 \<and> list_ex (\<lambda>p. p_id p = s_priceId r) (prices s))
       (subscriptions s)"

section \<open>Example inputs\<close>

definition env0 :: env where
  "env0 = \<lparr>now = 5000, cuid = (\<lambda>_. ''c1''), fault = (\<lambda>_. None)\<rparr>"

definition sub0 :: Subscription where
  "sub0 = \<lparr>s_id = ''s1'', s_stripeSubscriptionId = ''sub_1'', s_userId = ''u1'', s_priceId = ''p1'',
     s_status = ACTIVE, s_metadata = None, s_cancelAtPeriodEnd = False, s_cancelAt = None,
     s_canceledAt = None, s_currentPeriodStart = 0, s_currentPeriodEnd = 6000, s_createdAt = 0,
     s_updatedAt = 0, s_endedAt = None, s_trialStart = None, s_trialEnd = None\<rparr>"

definition state0 :: state where
  "state0 = \<lparr>users = [], products = [], prices = [], subscriptions = [], paymentMethods = [],
     webhookEvents = [], logged = []\<rparr>"

definition ssub0 :: stripe_subscription where
  "ssub0 = \<lparr>ss_id = ''sub_1'', ss_customer = ''cus_1'',
     ss_items = [\<lparr>si_id = ''si_1'', si_price_id = ''price_1''\<rparr>], ss_status = ''active'',
     ss_cancel_at_period_end = False, ss_cancel_at = None, ss_canceled_at = None,
     ss_current_period_start = 0, ss_current_period_end = 6, ss_ended_at = None,
     ss_trial_start = None, ss_trial_end = None, ss_metadata = ''{}''\<rparr>"

definition sdk0 :: stripe_sdk where
  "sdk0 = \<lparr>sdk_customers_create = (\<lambda>email name. Inr \<lparr>sc_id = ''cus_new'', sc_email = Some email\<rparr>),
     sdk_checkout_sessions_create = (\<lambda>p. Inr \<lparr>cs_id = ''cs_1'', cs_url = Some ''https://checkout''\<rparr>),
     sdk_billingPortal_sessions_create = (\<lambda>c r. Inr \<lparr>ps_url = ''https://portal''\<rparr>),
     sdk_subscriptions_cancel = (\<lambda>i. Inr ssub0),
     sdk_subscriptions_update = (\<lambda>i p. Inr ssub0),
     sdk_subscriptions_retrieve = (\<lambda>i. Inr ssub0),
     sdk_webhooks_constructEvent = (\<lambda>p sig. Inl (StripeError ''No signatures found''))\<rparr>"

definition userA :: User where
  "userA = \<lparr>u_id = ''u1'', u_email = ''a@example.com'', u_firstName = Some ''Ada'',
     u_lastName = None, u_stripeCustomerId = Some ''cus_1'', u_createdAt = 0, u_updatedAt = 0\<rparr>"

definition userB :: User where
  "userB = \<lparr>u_id = ''u2'', u_email = ''b@example.com'', u_firstName = None,
     u_lastName = None, u_stripeCustomerId = None, u_createdAt = 0, u_updatedAt = 0\<rparr>"

definition pm0 :: PaymentMethod where
  "pm0 = \<lparr>pm_id = ''m1'', pm_stripePaymentMethodId = ''pm_1'', pm_userId = ''u1'',
     pm_type = ''card'', pm_last4 = Some ''4242'', pm_brand = Some ''visa'',
     pm_expiryMonth = Some 12, pm_expiryYear = Some 2030, pm_isDefault = False,
     pm_createdAt = 0, pm_updatedAt = 0\<rparr>"

text \<open>\<open>evt_1\<close>: the subscription \<open>sub_1\<close> was deleted.\<close>

definition evt_deleted :: stripe_event where
  "evt_deleted = \<lparr>ev_id = ''evt_1'', ev_data = CustomerSubscriptionDeleted ssub0, ev_json = ''{}''\<rparr>"

text \<open>
  \<open>evt_2\<close>: a customer \<open>cus_1\<close> was created with the email of user B, while user A is
  already linked to \<open>cus_1\<close>.
\<close>

definition evt_customer :: stripe_event where
  "evt_customer = \<lparr>ev_id = ''evt_2'',
     ev_data = CustomerCreated \<lparr>sc_id = ''cus_1'', sc_email = Some ''b@example.com''\<rparr>,
     ev_json = ''{}''\<rparr>"

text \<open>\<open>evt_3\<close>: the payment method \<open>pm_1\<close> was detached.\<close>

definition evt_detached :: stripe_event where
  "evt_detached = \<lparr>ev_id = ''evt_3'',
     ev_data = PaymentMethodDetached
       \<lparr>spm_id = ''pm_1'', spm_customer = None, spm_type = ''card'', spm_card = None\<rparr>,
     ev_json = ''{}''\<rparr>"

text \<open>An SDK whose signature check accepts the payload and decodes it to the given event.\<close>

definition sdk_delivering :: "stripe_event \<Rightarrow> stripe_sdk" where
  "sdk_delivering ev = sdk0\<lparr>sdk_webhooks_constructEvent := (\<lambda>p sig. Inr ev)\<rparr>"

text \<open>An environment in which the database rejects \<open>paymentMethod.delete\<close>.\<close>

definition env_delete_fails :: env where
  "env_delete_fails =
     env0\<lparr>fault := (\<lambda>c. if c = PaymentMethod_delete then Some ''Connection lost'' else None)\<rparr>"

text \<open>The redelivery happens two seconds later.\<close>

definition env_later :: env where
  "env_later = env0\<lparr>now := 7000\<rparr>"

definition price0 :: Price where
  "price0 = \<lparr>p_id = ''p1'', p_stripePriceId = ''price_1'', p_productId = ''pr1'',
     p_nickname = None, p_currency = ''usd'', p_type = RECURRING, p_unitAmount = Some 900,
     p_interval = Some MONTH, p_intervalCount = Some 1, p_metadata = None, p_active = True,
     p_createdAt = 0, p_updatedAt = 0\<rparr>"

definition dto0 :: CreateCheckoutSessionDto where
  "dto0 = \<lparr>dto_priceId = ''price_9'', dto_successUrl = ''https://app/success'',
     dto_cancelUrl = ''https://app/cancel'', dto_trialPeriodDays = None, dto_metadata = []\<rparr>"

text \<open>An SDK whose every call is answered with an error.\<close>

definition sdk_down :: stripe_sdk where
  "sdk_down = \<lparr>sdk_customers_create = (\<lambda>email name. Inl (StripeError ''api_connection_error'')),
     sdk_checkout_sessions_create = (\<lambda>p. Inl (StripeError ''api_connection_error'')),
     sdk_billingPortal_sessions_create = (\<lambda>c r. Inl (StripeError ''api_connection_error'')),
     sdk_subscriptions_cancel = (\<lambda>i. Inl (StripeError ''api_connection_error'')),
     sdk_subscriptions_update = (\<lambda>i p. Inl (StripeError ''api_connection_error'')),
     sdk_subscriptions_retrieve = (\<lambda>i. Inl (StripeError ''api_connection_error'')),
     sdk_webhooks_constructEvent = (\<lambda>p sig. Inl (StripeError ''api_connection_error''))\<rparr>"

section \<open>Theorems\<close>

subsection \<open>Status mapping\<close>

text \<open>
  Claim C4. \<open>mapSubscriptionStatus\<close> is a total function: each of the eight status values of
  the external vocabulary maps to the local status of the same name, and every value outside
  the vocabulary maps to \<open>INCOMPLETE\<close>, which is the first member of the local enum.
\<close>

theorem mapSubscriptionStatus_total:
  "mapSubscriptionStatus ''incomplete'' = INCOMPLETE
   \<and> mapSubscriptionStatus ''incomplete_expired'' = INCOMPLETE_EXPIRED
   \<and> mapSubscriptionStatus ''trialing'' = TRIALING
   \<and> mapSubscriptionStatus ''active'' = ACTIVE
   \<and> mapSubscriptionStatus ''past_due'' = PAST_DUE
   \<and> mapSubscriptionStatus ''canceled'' = CANCELED
   \<and> mapSubscriptionStatus ''unpaid'' = UNPAID
   \<and> mapSubscriptionStatus ''paused'' = PAUSED
   \<and> (\<forall>stripeStatus. stripeStatus \<notin> set stripe_status_vocabulary \<longrightarrow>
          mapSubscriptionStatus stripeStatus = hd SubscriptionStatus_members)
   \<and> hd SubscriptionStatus_members = INCOMPLETE"
  by (simp add: mapSubscriptionStatus_def stripe_status_vocabulary_def
      SubscriptionStatus_members_def)

theorem mapSubscriptionStatus_total_witness:
  "''bogus'' \<notin> set stripe_status_vocabulary \<and> mapSubscriptionStatus ''bogus'' = INCOMPLETE"
  using mapSubscriptionStatus_total
  by (simp add: stripe_status_vocabulary_def)

subsection \<open>Entitlement\<close>

lemma find_not_None: "(find P xs \<noteq> None) = (\<exists>x\<in>set xs. P x)"
  by (induction xs) auto

lemma hasActiveSubscription_eq:
  "fault e Subscription_findFirst = None \<Longrightarrow>
   hasActiveSubscription e userId s = (Inr (\<exists>r\<in>set (subscriptions s). entitled (now e) userId r), s)"
  by (simp add: hasActiveSubscription_def await_def prisma_def ret_def find_not_None
      del: not_None_eq)

text \<open>
  Claim C7. When the query goes through, \<open>hasActiveSubscription\<close> returns true exactly when
  some subscription of the principal has status \<open>ACTIVE\<close> or \<open>TRIALING\<close> and a
  \<open>currentPeriodEnd\<close> strictly after the current instant. For a principal whose only
  subscription is active, a period end one second (1000 ms) in the past gives false and one
  second in the future gives true.
\<close>

theorem hasActiveSubscription_iff:
  assumes "fault e Subscription_findFirst = None"
  shows "hasActiveSubscription e userId s =
           (Inr (\<exists>r\<in>set (subscriptions s).
                   s_userId r = userId \<and> (s_status r = ACTIVE \<or> s_status r = TRIALING)
                   \<and> now e < s_currentPeriodEnd r), s)
         \<and> (\<forall>r. subscriptions s = [r] \<and> s_userId r = userId \<and> s_status r = ACTIVE
                \<and> s_currentPeriodEnd r = now e - 1000
              \<longrightarrow> fst (hasActiveSubscription e userId s) = Inr False)
         \<and> (\<forall>r. subscriptions s = [r] \<and> s_userId r = userId \<and> s_status r = ACTIVE
                \<and> s_currentPeriodEnd r = now e + 1000
              \<longrightarrow> fst (hasActiveSubscription e userId s) = Inr True)"
  using assms by (auto simp add: hasActiveSubscription_eq entitled_def)

theorem hasActiveSubscription_iff_witness:
  "fault env0 Subscription_findFirst = None
   \<and> fst (hasActiveSubscription env0 ''u1'' (state0\<lparr>subscriptions := [sub0]\<rparr>)) = Inr True
   \<and> fst (hasActiveSubscription env0 ''u1''
            (state0\<lparr>subscriptions := [sub0\<lparr>s_currentPeriodEnd := 4000\<rparr>]\<rparr>)) = Inr False"
proof -
  have f: "fault env0 Subscription_findFirst = None" by (simp add: env0_def)
  show ?thesis
    using hasActiveSubscription_iff [OF f, of "''u1''" "state0\<lparr>subscriptions := [sub0]\<rparr>"]
      hasActiveSubscription_iff [OF f, of "''u1''"
        "state0\<lparr>subscriptions := [sub0\<lparr>s_currentPeriodEnd := 4000\<rparr>]\<rparr>"]
    by (simp add: env0_def sub0_def state0_def)
qed

text \<open>
  Claim C9. The entitlement check does not look at the cancellation fields: a subscription of
  the principal with status \<open>ACTIVE\<close> or \<open>TRIALING\<close> and a period end in the future gives
  true whatever \<open>cancelAtPeriodEnd\<close>, \<open>cancelAt\<close> and \<open>canceledAt\<close> hold, and rewriting
  these three fields of any rows leaves the answer as it was.
\<close>

theorem entitlement_ignores_cancellation:
  assumes "fault e Subscription_findFirst = None"
  shows "(\<forall>r\<in>set (subscriptions s).
            s_userId r = userId \<and> (s_status r = ACTIVE \<or> s_status r = TRIALING)
            \<and> now e < s_currentPeriodEnd r
          \<longrightarrow> fst (hasActiveSubscription e userId s) = Inr True)
         \<and> fst (hasActiveSubscription e userId
                 (s\<lparr>subscriptions :=
                      map (\<lambda>r. r\<lparr>s_cancelAtPeriodEnd := c r, s_cancelAt := a r, s_canceledAt := d r\<rparr>)
                        (subscriptions s)\<rparr>))
           = fst (hasActiveSubscription e userId s)"
  using assms by (auto simp add: hasActiveSubscription_eq entitled_def)

theorem entitlement_ignores_cancellation_witness:
  "fault env0 Subscription_findFirst = None
   \<and> fst (hasActiveSubscription env0 ''u1''
       (state0\<lparr>subscriptions := [sub0\<lparr>s_cancelAtPeriodEnd := True, s_cancelAt := Some 6000\<rparr>]\<rparr>))
     = Inr True"
proof -
  have f: "fault env0 Subscription_findFirst = None" by (simp add: env0_def)
  show ?thesis
    using entitlement_ignores_cancellation [OF f,
        of "state0\<lparr>subscriptions := [sub0\<lparr>s_cancelAtPeriodEnd := True, s_cancelAt := Some 6000\<rparr>]\<rparr>"
           "''u1''"]
    by (simp add: env0_def sub0_def state0_def)
qed

subsection \<open>Reactivation\<close>

lemma find_distinct_key:
  assumes "distinct (map k xs)" and "r \<in> set xs" and "P r" and "\<forall>x. P x \<longrightarrow> k x = k r"
  shows "find P xs = Some r"
  using assms(1,2)
proof (induction xs)
  case Nil
  then show ?case by simp
next
  case (Cons x xs)
  show ?case
  proof (cases "P x")
    case True
    with assms(4) have kx: "k x = k r" by blast
    have "x = r"
    proof (rule ccontr)
      assume "x \<noteq> r"
      with Cons.prems(2) have "r \<in> set xs" by simp
      then have "k r \<in> k ` set xs" by (rule imageI)
      with Cons.prems(1) kx show False by simp
    qed
    with True show ?thesis by simp
  next
    case False
    with assms(3) have "x \<noteq> r" by blast
    with Cons.prems(2) have "r \<in> set xs" by simp
    with Cons.IH Cons.prems(1) False show ?thesis by simp
  qed
qed

lemma update_first_distinct_key:
  "distinct (map k xs) \<Longrightarrow>
   update_first (\<lambda>x. k x = a) f xs = map (\<lambda>x. if k x = a then f x else x) xs"
proof (induction xs)
  case Nil
  then show ?case by simp
next
  case (Cons x xs)
  show ?case
  proof (cases "k x = a")
    case True
    then have "\<forall>y\<in>set xs. k y \<noteq> a" using Cons.prems by (auto simp: image_iff)
    then have "map (\<lambda>x. if k x = a then f x else x) xs = xs" by (simp add: map_idI)
    then show ?thesis using True by simp
  next
    case False
    then show ?thesis using Cons by simp
  qed
qed

lemma ball_map_if:
  assumes "\<forall>x. C x \<longrightarrow> Q (f x)" and "\<forall>x. \<not> C x \<longrightarrow> Q x"
  shows "\<forall>y\<in>set (map (\<lambda>x. if C x then f x else x) xs). Q y"
  using assms by (induction xs) simp_all

text \<open>
  Claim C8. When no row with the given id is marked for cancellation at period end,
  \<open>reactivateSubscription\<close> fails with the not-found-or-not-eligible error and leaves the
  state as it was. For a subscription of the caller that is marked (ids being the primary
  key), once the processor has accepted the reactivation and the update goes through, the
  call succeeds and the row has \<open>cancelAtPeriodEnd = false\<close> and \<open>cancelAt = null\<close>.
\<close>

theorem reactivateSubscription_eligibility:
  assumes "fault e Subscription_findFirst = None"
  shows "((\<forall>r\<in>set (subscriptions s). s_id r = subscriptionId \<longrightarrow> \<not> s_cancelAtPeriodEnd r) \<longrightarrow>
            reactivateSubscription e sdk userId subscriptionId s =
              (Inl (NotFoundException ''Subscription not found or not eligible for reactivation''), s))
         \<and> (\<forall>r\<in>set (subscriptions s).
               s_id r = subscriptionId \<and> s_userId r = userId \<and> s_cancelAtPeriodEnd r
               \<and> distinct (map s_id (subscriptions s))
               \<and> fault e Subscription_update = None
               \<and> (\<exists>u. stripeService_reactivateSubscription sdk (s_stripeSubscriptionId r) = Inr u)
             \<longrightarrow> reactivateSubscription e sdk userId subscriptionId s =
                   (Inr True,
                    s\<lparr>subscriptions :=
                         map (\<lambda>x. if s_id x = subscriptionId
                                   then x\<lparr>s_cancelAtPeriodEnd := False, s_cancelAt := None,
                                          s_updatedAt := now e\<rparr>
                                   else x) (subscriptions s)\<rparr>)
                 \<and> (\<forall>x\<in>set (subscriptions
                                 (snd (reactivateSubscription e sdk userId subscriptionId s))).
                        s_id x = subscriptionId \<longrightarrow>
                          \<not> s_cancelAtPeriodEnd x \<and> s_cancelAt x = None))"
    (is "?refuse \<and> ?accept")
proof (rule conjI)
  show ?refuse
  proof (rule impI)
    assume "\<forall>r\<in>set (subscriptions s). s_id r = subscriptionId \<longrightarrow> \<not> s_cancelAtPeriodEnd r"
    then have "find (\<lambda>r. s_id r = subscriptionId \<and> s_userId r = userId \<and> s_cancelAtPeriodEnd r)
                 (subscriptions s) = None"
      unfolding find_None_iff by blast
    then show "reactivateSubscription e sdk userId subscriptionId s =
                (Inl (NotFoundException ''Subscription not found or not eligible for reactivation''), s)"
      using assms by (simp add: reactivateSubscription_def await_def prisma_def throw_def)
  qed
next
  show ?accept
  proof (rule ballI, rule impI)
    fix r
    assume r: "r \<in> set (subscriptions s)"
      and h: "s_id r = subscriptionId \<and> s_userId r = userId \<and> s_cancelAtPeriodEnd r
              \<and> distinct (map s_id (subscriptions s))
              \<and> fault e Subscription_update = None
              \<and> (\<exists>u. stripeService_reactivateSubscription sdk (s_stripeSubscriptionId r) = Inr u)"
    let ?rows = "map (\<lambda>x. if s_id x = subscriptionId
                         then x\<lparr>s_cancelAtPeriodEnd := False, s_cancelAt := None,
                                s_updatedAt := now e\<rparr>
                         else x) (subscriptions s)"
    from h obtain u
      where u: "stripeService_reactivateSubscription sdk (s_stripeSubscriptionId r) = Inr u"
      by blast
    have d: "distinct (map s_id (subscriptions s))" using h by blast
    have f2: "fault e Subscription_update = None" using h by blast
    have Pr: "s_id r = subscriptionId \<and> s_userId r = userId \<and> s_cancelAtPeriodEnd r"
      using h by blast
    have found: "find (\<lambda>r. s_id r = subscriptionId \<and> s_userId r = userId \<and> s_cancelAtPeriodEnd r)
                   (subscriptions s) = Some r"
      using d r Pr by (intro find_distinct_key [where k = s_id]) simp_all
    have ex: "list_ex (\<lambda>r. s_id r = subscriptionId) (subscriptions s)"
      unfolding list_ex_iff using r Pr by blast
    have run: "reactivateSubscription e sdk userId subscriptionId s =
                 (Inr True, s\<lparr>subscriptions := ?rows\<rparr>)"
      using assms f2 found u ex
      by (simp add: reactivateSubscription_def await_def prisma_def stripe_call_def ret_def
          update_unique_def update_first_distinct_key [OF d])
    have post: "\<forall>x\<in>set ?rows. s_id x = subscriptionId \<longrightarrow>
                  \<not> s_cancelAtPeriodEnd x \<and> s_cancelAt x = None"
      by (rule ball_map_if) simp_all
    have sel: "\<And>m. subscriptions (snd (Inr True :: error + bool, s\<lparr>subscriptions := m\<rparr>)) = m"
      by simp
    have cleared: "\<forall>x\<in>set (subscriptions (snd (reactivateSubscription e sdk userId subscriptionId s))).
            s_id x = subscriptionId \<longrightarrow> \<not> s_cancelAtPeriodEnd x \<and> s_cancelAt x = None"
      unfolding run sel by (rule post)
    from run cleared
    show "reactivateSubscription e sdk userId subscriptionId s =
            (Inr True, s\<lparr>subscriptions := ?rows\<rparr>)
          \<and> (\<forall>x\<in>set (subscriptions (snd (reactivateSubscription e sdk userId subscriptionId s))).
                 s_id x = subscriptionId \<longrightarrow> \<not> s_cancelAtPeriodEnd x \<and> s_cancelAt x = None)"
      by (rule conjI)
  qed
qed

theorem reactivateSubscription_eligibility_witness:
  "fault env0 Subscription_findFirst = None
   \<and> fst (reactivateSubscription env0 sdk0 ''u1'' ''s1'' (state0\<lparr>subscriptions := [sub0]\<rparr>))
       = Inl (NotFoundException ''Subscription not found or not eligible for reactivation'')
   \<and> reactivateSubscription env0 sdk0 ''u1'' ''s1''
        (state0\<lparr>subscriptions := [sub0\<lparr>s_cancelAtPeriodEnd := True, s_cancelAt := Some 6000\<rparr>]\<rparr>)
       = (Inr True, state0\<lparr>subscriptions := [sub0\<lparr>s_updatedAt := 5000\<rparr>]\<rparr>)"
proof -
  have f: "fault env0 Subscription_findFirst = None" by (simp add: env0_def)
  show ?thesis
    using reactivateSubscription_eligibility [OF f, of "state0\<lparr>subscriptions := [sub0]\<rparr>"
        "''s1''" sdk0 "''u1''"]
      reactivateSubscription_eligibility [OF f,
        of "state0\<lparr>subscriptions := [sub0\<lparr>s_cancelAtPeriodEnd := True, s_cancelAt := Some 6000\<rparr>]\<rparr>"
        "''s1''" sdk0 "''u1''"]
    by (simp add: env0_def sub0_def state0_def sdk0_def stripeService_reactivateSubscription_def)
qed

subsection \<open>The ledger and the reconcilers\<close>

lemma find_update_first:
  "\<forall>x. P x \<longrightarrow> P (f x) \<Longrightarrow> find P (update_first P f xs) = map_option f (find P xs)"
  by (induction xs) simp_all

lemma list_ex_update_first:
  "\<forall>x. P x \<longrightarrow> P (f x) \<Longrightarrow> list_ex P (update_first P f xs) = list_ex P xs"
  by (induction xs) auto

lemma find_append_new:
  "find P (xs @ [y]) = (case find P xs of Some x \<Rightarrow> Some x | None \<Rightarrow> if P y then Some y else None)"
  by (induction xs) simp_all

lemma list_ex_find: "list_ex P xs = (find P xs \<noteq> None)"
  by (induction xs) simp_all

lemma find_upsert:
  assumes "\<forall>x. P x \<longrightarrow> P (f x)" and "P new"
  shows "find P (upsert P f new xs) = Some (case find P xs of None \<Rightarrow> new | Some x \<Rightarrow> f x)"
proof (cases "find P xs")
  case None
  then have "\<not> list_ex P xs" by (simp add: list_ex_find)
  with None assms(2) show ?thesis by (simp add: upsert_def find_append_new)
next
  case (Some x)
  then have "list_ex P xs" by (simp add: list_ex_find)
  with Some assms(1) show ?thesis by (simp add: upsert_def find_update_first)
qed

lemma handlePaymentMethodDetached_returns:
  "fst (handlePaymentMethodDetached e paymentMethod s) = Inr ()"
  by (simp add: handlePaymentMethodDetached_def catch_def prisma_def ret_def
      split: option.split sum.split prod.split)

lemma handlePaymentMethodDetached_state:
  "snd (handlePaymentMethodDetached e paymentMethod s) =
     (if fault e PaymentMethod_delete = None
         \<and> list_ex (\<lambda>r. pm_stripePaymentMethodId r = spm_id paymentMethod) (paymentMethods s)
      then s\<lparr>paymentMethods :=
               delete_first (\<lambda>r. pm_stripePaymentMethodId r = spm_id paymentMethod) (paymentMethods s)\<rparr>
      else s)"
  by (simp add: handlePaymentMethodDetached_def catch_def prisma_def ret_def delete_unique_def
      split: option.split)

lemma ledger_find_upsert:
  "\<exists>r. ledger_find (ev_id ev) (ledger_upsert e ev rows) = Some r
        \<and> we_processed r = processed (ledger_find (ev_id ev) rows)"
  by (simp add: ledger_find_def ledger_upsert_def find_upsert processed_def split: option.split)

lemma ledger_mark_found:
  "ledger_find eid rows = Some r \<Longrightarrow>
   \<exists>rows'. ledger_mark e eid rows = Inr rows'
      \<and> ledger_find eid rows' = Some (r\<lparr>we_processed := True, we_processedAt := Some (now e)\<rparr>)"
  by (simp add: ledger_find_def ledger_mark_def update_unique_def list_ex_find find_update_first)

lemma ledger_mark_absent:
  "ledger_find eid rows = None \<Longrightarrow> ledger_mark e eid rows = Inl (PrismaError ''P2025'')"
  by (simp add: ledger_find_def ledger_mark_def update_unique_def list_ex_find)

lemma handleSubscriptionUpdated_ledger:
  "webhookEvents (snd (handleSubscriptionUpdated e obj s)) = webhookEvents s"
  by (simp add: handleSubscriptionUpdated_def await_def prisma_def logger_def ret_def Let_def
      split: option.split)

lemma handleSubscriptionDeleted_ledger:
  "webhookEvents (snd (handleSubscriptionDeleted e obj s)) = webhookEvents s"
  by (simp add: handleSubscriptionDeleted_def prisma_def split: option.split)

lemma handleInvoicePaymentSucceeded_ledger:
  "webhookEvents (snd (handleInvoicePaymentSucceeded e obj s)) = webhookEvents s"
  by (simp add: handleInvoicePaymentSucceeded_def await_def prisma_def ret_def
      split: option.split sum.split)

lemma handleInvoicePaymentFailed_ledger:
  "webhookEvents (snd (handleInvoicePaymentFailed e obj s)) = webhookEvents s"
  by (simp add: handleInvoicePaymentFailed_def prisma_def ret_def split: option.split)

lemma handleCustomerCreated_ledger:
  "webhookEvents (snd (handleCustomerCreated e obj s)) = webhookEvents s"
  by (simp add: handleCustomerCreated_def prisma_def ret_def split: option.split sum.split)

lemma handleCustomerUpdated_ledger:
  "webhookEvents (snd (handleCustomerUpdated e obj s)) = webhookEvents s"
  by (simp add: handleCustomerUpdated_def prisma_def ret_def split: option.split)

lemma handleProductUpdated_ledger:
  "webhookEvents (snd (handleProductUpdated e obj s)) = webhookEvents s"
  by (simp add: handleProductUpdated_def prisma_def split: option.split)

lemma handleProductDeleted_ledger:
  "webhookEvents (snd (handleProductDeleted e obj s)) = webhookEvents s"
  by (simp add: handleProductDeleted_def prisma_def split: option.split)

lemma handlePriceUpdated_ledger:
  "webhookEvents (snd (handlePriceUpdated e obj s)) = webhookEvents s"
  by (simp add: handlePriceUpdated_def await_def prisma_def logger_def Let_def
      split: option.split)

lemma handlePriceDeleted_ledger:
  "webhookEvents (snd (handlePriceDeleted e obj s)) = webhookEvents s"
  by (simp add: handlePriceDeleted_def prisma_def split: option.split)

lemma handlePaymentMethodAttached_ledger:
  "webhookEvents (snd (handlePaymentMethodAttached e obj s)) = webhookEvents s"
  by (simp add: handlePaymentMethodAttached_def await_def prisma_def ret_def Let_def
      split: option.split)

lemma handlePaymentMethodDetached_ledger:
  "webhookEvents (snd (handlePaymentMethodDetached e obj s)) = webhookEvents s"
  by (simp add: handlePaymentMethodDetached_state)

lemma processEvent_ledger:
  "webhookEvents (snd (processEvent e ev s)) = webhookEvents s"
  by (simp add: logger_def handleSubscriptionUpdated_ledger handleSubscriptionDeleted_ledger
      handleInvoicePaymentSucceeded_ledger handleInvoicePaymentFailed_ledger
      handleCustomerCreated_ledger handleCustomerUpdated_ledger handleProductUpdated_ledger
      handleProductDeleted_ledger handlePriceUpdated_ledger handlePriceDeleted_ledger
      handlePaymentMethodAttached_ledger handlePaymentMethodDetached_ledger
      split: stripe_event_data.split)

lemma handleWebhookEvent_unfold:
  "handleWebhookEvent e ev s =
     (case webhookEvent_findUnique e (ev_id ev) s of
        (Inl err, s0) \<Rightarrow> (Inl err, s0)
      | (Inr existingEvent, s0) \<Rightarrow>
          if processed existingEvent
          then logger Log (''Event '' @ ev_id ev @ '' already processed, skipping'') s0
          else
            (case webhookEvent_upsert e ev s0 of
               (Inl err, s1) \<Rightarrow> (Inl err, s1)
             | (Inr _, s1) \<Rightarrow>
                 (case processEvent e ev s1 of
                    (Inl err, s2) \<Rightarrow>
                      (Inl err, snd (logger Error
                         (''Failed to process webhook event '' @ ev_id ev @ '':'') s2))
                  | (Inr _, s2) \<Rightarrow>
                      (case webhookEvent_markProcessed e (ev_id ev) s2 of
                         (Inl err, s3) \<Rightarrow>
                           (Inl err, snd (logger Error
                              (''Failed to process webhook event '' @ ev_id ev @ '':'') s3))
                       | (Inr _, s3) \<Rightarrow>
                           logger Log (''Successfully processed webhook event: ''
                                       @ ev_type (ev_data ev)) s3))))"
  by (simp add: handleWebhookEvent_def await_def catch_def throw_def logger_def
      del: processEvent.simps split: prod.split sum.split)

lemma webhookEvent_findUnique_ok:
  "fault e WebhookEvent_findUnique = None \<Longrightarrow>
   webhookEvent_findUnique e eid s = (Inr (ledger_find eid (webhookEvents s)), s)"
  by (simp add: webhookEvent_findUnique_def prisma_def)

lemma webhookEvent_upsert_ok:
  "fault e WebhookEvent_upsert = None \<Longrightarrow>
   webhookEvent_upsert e ev s = (Inr (), s\<lparr>webhookEvents := ledger_upsert e ev (webhookEvents s)\<rparr>)"
  by (simp add: webhookEvent_upsert_def prisma_def)

lemma webhookEvent_markProcessed_ok:
  assumes "fault e WebhookEvent_update = None" and "ledger_find eid (webhookEvents s) = Some r"
  shows "\<exists>rows'. webhookEvent_markProcessed e eid s = (Inr (), s\<lparr>webhookEvents := rows'\<rparr>)
           \<and> ledger_find eid rows' = Some (r\<lparr>we_processed := True, we_processedAt := Some (now e)\<rparr>)"
proof -
  from ledger_mark_found [OF assms(2), of e] obtain rows'
    where m: "ledger_mark e eid (webhookEvents s) = Inr rows'"
      and f: "ledger_find eid rows' = Some (r\<lparr>we_processed := True, we_processedAt := Some (now e)\<rparr>)"
    by blast
  from assms(1) m have "webhookEvent_markProcessed e eid s = (Inr (), s\<lparr>webhookEvents := rows'\<rparr>)"
    by (simp add: webhookEvent_markProcessed_def prisma_def)
  with f show ?thesis by blast
qed

lemma handleWebhookEvent_already:
  assumes "fault e WebhookEvent_findUnique = None"
    and "processed (ledger_find (ev_id ev) (webhookEvents s))"
  shows "handleWebhookEvent e ev s =
           (Inr (), s\<lparr>logged := logged s @
              [(Log, ''Event '' @ ev_id ev @ '' already processed, skipping'')]\<rparr>)"
  using assms
  by (simp add: handleWebhookEvent_unfold webhookEvent_findUnique_ok logger_def
      del: processEvent.simps)

lemma handleWebhookEvent_reconciled:
  assumes ff: "fault e WebhookEvent_findUnique = None"
    and fu: "fault e WebhookEvent_upsert = None"
    and fm: "fault e WebhookEvent_update = None"
    and np: "\<not> processed (ledger_find (ev_id ev) (webhookEvents s))"
    and pe: "processEvent e ev (s\<lparr>webhookEvents := ledger_upsert e ev (webhookEvents s)\<rparr>)
               = (Inr (), s2)"
  shows "\<exists>rows' r. handleWebhookEvent e ev s =
            (Inr (), s2\<lparr>webhookEvents := rows',
                        logged := logged s2 @
                          [(Log, ''Successfully processed webhook event: '' @ ev_type (ev_data ev))]\<rparr>)
          \<and> ledger_find (ev_id ev) rows' = Some r \<and> we_processed r"
proof -
  have "webhookEvents (snd (processEvent e ev
          (s\<lparr>webhookEvents := ledger_upsert e ev (webhookEvents s)\<rparr>)))
        = webhookEvents (s\<lparr>webhookEvents := ledger_upsert e ev (webhookEvents s)\<rparr>)"
    by (rule processEvent_ledger)
  then have l2: "webhookEvents s2 = ledger_upsert e ev (webhookEvents s)"
    unfolding pe by simp
  obtain r0 where r0: "ledger_find (ev_id ev) (webhookEvents s2) = Some r0"
    unfolding l2 using ledger_find_upsert [of ev e "webhookEvents s"] by blast
  from webhookEvent_markProcessed_ok [OF fm r0] obtain rows'
    where m: "webhookEvent_markProcessed e (ev_id ev) s2 = (Inr (), s2\<lparr>webhookEvents := rows'\<rparr>)"
      and f: "ledger_find (ev_id ev) rows'
                = Some (r0\<lparr>we_processed := True, we_processedAt := Some (now e)\<rparr>)"
    by blast
  have run: "handleWebhookEvent e ev s =
          (Inr (), s2\<lparr>webhookEvents := rows',
                      logged := logged s2 @
                        [(Log, ''Successfully processed webhook event: '' @ ev_type (ev_data ev))]\<rparr>)"
    using ff fu np pe m
    by (simp add: handleWebhookEvent_unfold webhookEvent_findUnique_ok webhookEvent_upsert_ok
        logger_def del: processEvent.simps)
  have "we_processed (r0\<lparr>we_processed := True, we_processedAt := Some (now e)\<rparr>)" by simp
  with run f show ?thesis by blast
qed

lemma handleWebhookEvent_failed:
  assumes ff: "fault e WebhookEvent_findUnique = None"
    and fu: "fault e WebhookEvent_upsert = None"
    and np: "\<not> processed (ledger_find (ev_id ev) (webhookEvents s))"
    and pe: "fst (processEvent e ev (snd (webhookEvent_upsert e ev s))) = Inl err"
  shows "fst (handleWebhookEvent e ev s) = Inl err
     \<and> (\<exists>r. ledger_find (ev_id ev) (webhookEvents (snd (handleWebhookEvent e ev s))) = Some r
            \<and> \<not> we_processed r)"
proof -
  let ?s1 = "s\<lparr>webhookEvents := ledger_upsert e ev (webhookEvents s)\<rparr>"
  obtain s2 where pe2: "processEvent e ev ?s1 = (Inl err, s2)"
    using pe fu by (cases "processEvent e ev ?s1") (simp add: webhookEvent_upsert_ok)
  have "webhookEvents (snd (processEvent e ev ?s1)) = webhookEvents ?s1"
    by (rule processEvent_ledger)
  then have l2: "webhookEvents s2 = ledger_upsert e ev (webhookEvents s)"
    unfolding pe2 by simp
  have run: "handleWebhookEvent e ev s =
      (Inl err, s2\<lparr>logged := logged s2 @
         [(Error, ''Failed to process webhook event '' @ ev_id ev @ '':'')]\<rparr>)"
    using ff fu np pe2
    by (simp add: handleWebhookEvent_unfold webhookEvent_findUnique_ok webhookEvent_upsert_ok
        logger_def del: processEvent.simps)
  obtain r where "ledger_find (ev_id ev) (ledger_upsert e ev (webhookEvents s)) = Some r"
    and "we_processed r = processed (ledger_find (ev_id ev) (webhookEvents s))"
    using ledger_find_upsert [of ev e "webhookEvents s"] by blast
  with np l2 have "ledger_find (ev_id ev) (webhookEvents s2) = Some r \<and> \<not> we_processed r"
    by simp
  then show ?thesis unfolding run by simp
qed

lemma handleWebhookEvent_Inr:
  assumes ok: "fst (handleWebhookEvent e ev s) = Inr ()"
  shows "\<exists>r. ledger_find (ev_id ev) (webhookEvents (snd (handleWebhookEvent e ev s))) = Some r
            \<and> we_processed r"
proof (cases "fault e WebhookEvent_findUnique")
  case (Some m)
  then have "fst (handleWebhookEvent e ev s) = Inl (PrismaError m)"
    by (simp add: handleWebhookEvent_unfold webhookEvent_findUnique_def prisma_def
        del: processEvent.simps)
  with ok show ?thesis by simp
next
  case ff: None
  show ?thesis
  proof (cases "processed (ledger_find (ev_id ev) (webhookEvents s))")
    case True
    then obtain r where "ledger_find (ev_id ev) (webhookEvents s) = Some r" and "we_processed r"
      by (auto simp: processed_def split: option.splits)
    then show ?thesis using ff True by (simp add: handleWebhookEvent_already)
  next
    case np: False
    show ?thesis
    proof (cases "fault e WebhookEvent_upsert")
      case (Some m)
      then have "fst (handleWebhookEvent e ev s) = Inl (PrismaError m)"
        using ff np
        by (simp add: handleWebhookEvent_unfold webhookEvent_findUnique_ok
            webhookEvent_upsert_def prisma_def del: processEvent.simps)
      with ok show ?thesis by simp
    next
      case fu: None
      let ?s1 = "s\<lparr>webhookEvents := ledger_upsert e ev (webhookEvents s)\<rparr>"
      obtain res s2 where pe: "processEvent e ev ?s1 = (res, s2)"
        by (cases "processEvent e ev ?s1")
      show ?thesis
      proof (cases res)
        case (Inl err)
        then have "fst (processEvent e ev (snd (webhookEvent_upsert e ev s))) = Inl err"
          using pe fu by (simp add: webhookEvent_upsert_ok)
        from handleWebhookEvent_failed [OF ff fu np this] ok show ?thesis by simp
      next
        case (Inr u)
        then have pe2: "processEvent e ev ?s1 = (Inr (), s2)" using pe by simp
        show ?thesis
        proof (cases "fault e WebhookEvent_update")
          case (Some m)
          then have "fst (handleWebhookEvent e ev s) = Inl (PrismaError m)"
            using ff fu np pe2
            by (simp add: handleWebhookEvent_unfold webhookEvent_findUnique_ok
                webhookEvent_upsert_ok webhookEvent_markProcessed_def prisma_def
                del: processEvent.simps)
          with ok show ?thesis by simp
        next
          case fm: None
          from handleWebhookEvent_reconciled [OF ff fu fm np pe2] obtain rows' r
            where "handleWebhookEvent e ev s =
                (Inr (), s2\<lparr>webhookEvents := rows',
                   logged := logged s2 @
                     [(Log, ''Successfully processed webhook event: '' @ ev_type (ev_data ev))]\<rparr>)"
              and "ledger_find (ev_id ev) rows' = Some r" and "we_processed r"
            by blast
          then show ?thesis by simp
        qed
      qed
    qed
  qed
qed

lemma handleWebhook_error:
  assumes "signature \<noteq> []"
    and "sdk_webhooks_constructEvent sdk payload signature = Inr ev"
    and "fst (handleWebhookEvent e ev s) = Inl err"
  shows "fst (handleWebhook e sdk (Some payload) (Some signature) s)
           = Inl (BadRequestException (message err))"
  using assms
  by (cases "handleWebhookEvent e ev s")
    (simp add: handleWebhook_def truthy_def catch_def await_def stripe_call_def logger_def
      throw_def)

lemma handleWebhook_Inr:
  assumes "fst (handleWebhook e sdk rawBody signature s) = Inr ack"
  shows "\<exists>payload sig ev. rawBody = Some payload \<and> signature = Some sig
           \<and> sdk_webhooks_constructEvent sdk payload sig = Inr ev
           \<and> fst (handleWebhookEvent e ev s) = Inr ()
           \<and> snd (handleWebhook e sdk rawBody signature s) = snd (handleWebhookEvent e ev s)
           \<and> ack = Received True"
  using assms
  by (auto simp add: handleWebhook_def truthy_def catch_def await_def stripe_call_def logger_def
      throw_def ret_def split: if_splits option.splits sum.splits prod.splits)

subsection \<open>Deliveries\<close>

lemmas example_defs = env0_def state0_def sub0_def ssub0_def sdk0_def userA_def userB_def pm0_def
  price0_def dto0_def sdk_down_def
  evt_deleted_def evt_customer_def evt_detached_def sdk_delivering_def env_delete_fails_def
  env_later_def

lemmas io_defs = await_def catch_def ret_def throw_def logger_def prisma_def stripe_call_def

lemma handleSubscriptionDeleted_ok:
  "fault e Subscription_updateMany = None \<Longrightarrow>
   handleSubscriptionDeleted e sub s =
     (Inr (), s\<lparr>subscriptions :=
        map (\<lambda>x. if s_stripeSubscriptionId x = ss_id sub
                  then x\<lparr>s_status := CANCELED, s_endedAt := Some (now e), s_updatedAt := now e\<rparr>
                  else x) (subscriptions s)\<rparr>)"
  by (simp add: handleSubscriptionDeleted_def prisma_def updateMany_def)

text \<open>
  Claim C3. An event of type \<open>customer.subscription.deleted\<close> that is not yet marked
  processed, for a locally known subscription with status \<open>ACTIVE\<close>: when the calls of the
  first delivery go through, \<open>handleWebhookEvent\<close> returns normally, the subscription
  table keeps every row, and the rows of that subscription have status \<open>CANCELED\<close> and
  \<open>endedAt\<close> stamped with the time of the delivery. A redelivery of the same event returns
  normally and changes nothing but the log, where it writes that the event was skipped: the
  reconciler is not entered again.
\<close>

theorem subscription_deleted_then_redelivered:
  assumes ev: "ev_data ev = CustomerSubscriptionDeleted sub"
    and ff: "fault e1 WebhookEvent_findUnique = None"
    and fu: "fault e1 WebhookEvent_upsert = None"
    and fs: "fault e1 Subscription_updateMany = None"
    and fm: "fault e1 WebhookEvent_update = None"
    and ff2: "fault e2 WebhookEvent_findUnique = None"
    and np: "\<not> processed (ledger_find (ev_id ev) (webhookEvents s))"
    and r: "r \<in> set (subscriptions s)"
    and rid: "s_stripeSubscriptionId r = ss_id sub"
    and active: "s_status r = ACTIVE"
  shows "fst (handleWebhookEvent e1 ev s) = Inr ()
     \<and> subscriptions (snd (handleWebhookEvent e1 ev s)) =
          map (\<lambda>x. if s_stripeSubscriptionId x = ss_id sub
                    then x\<lparr>s_status := CANCELED, s_endedAt := Some (now e1), s_updatedAt := now e1\<rparr>
                    else x) (subscriptions s)
     \<and> r\<lparr>s_status := CANCELED, s_endedAt := Some (now e1), s_updatedAt := now e1\<rparr>
          \<in> set (subscriptions (snd (handleWebhookEvent e1 ev s)))
     \<and> handleWebhookEvent e2 ev (snd (handleWebhookEvent e1 ev s)) =
          (Inr (), (snd (handleWebhookEvent e1 ev s))
             \<lparr>logged := logged (snd (handleWebhookEvent e1 ev s)) @
                [(Log, ''Event '' @ ev_id ev @ '' already processed, skipping'')]\<rparr>)"
proof -
  let ?s1 = "s\<lparr>webhookEvents := ledger_upsert e1 ev (webhookEvents s)\<rparr>"
  let ?cancel = "\<lambda>x. if s_stripeSubscriptionId x = ss_id sub
                    then x\<lparr>s_status := CANCELED, s_endedAt := Some (now e1), s_updatedAt := now e1\<rparr>
                    else x"
  let ?s2 = "?s1\<lparr>subscriptions := map ?cancel (subscriptions ?s1)\<rparr>"
  have pe: "processEvent e1 ev ?s1 = (Inr (), ?s2)"
    using ev by (simp add: handleSubscriptionDeleted_ok [OF fs])
  from handleWebhookEvent_reconciled [OF ff fu fm np pe] obtain rows' w
    where run: "handleWebhookEvent e1 ev s =
            (Inr (), ?s2\<lparr>webhookEvents := rows',
               logged := logged ?s2 @
                 [(Log, ''Successfully processed webhook event: '' @ ev_type (ev_data ev))]\<rparr>)"
      and found: "ledger_find (ev_id ev) rows' = Some w" and marked: "we_processed w"
    by blast
  have subs: "subscriptions (snd (handleWebhookEvent e1 ev s)) = map ?cancel (subscriptions s)"
    unfolding run by simp
  have led: "webhookEvents (snd (handleWebhookEvent e1 ev s)) = rows'"
    unfolding run by simp
  have "?cancel r \<in> set (map ?cancel (subscriptions s))"
    using r by (rule imageI [of r "set (subscriptions s)" ?cancel, folded set_map])
  then have mem: "r\<lparr>s_status := CANCELED, s_endedAt := Some (now e1), s_updatedAt := now e1\<rparr>
          \<in> set (subscriptions (snd (handleWebhookEvent e1 ev s)))"
    unfolding subs using rid by simp
  have "processed (ledger_find (ev_id ev) (webhookEvents (snd (handleWebhookEvent e1 ev s))))"
    unfolding led using found marked by (simp add: processed_def)
  from handleWebhookEvent_already [OF ff2 this]
  have again: "handleWebhookEvent e2 ev (snd (handleWebhookEvent e1 ev s)) =
          (Inr (), (snd (handleWebhookEvent e1 ev s))
             \<lparr>logged := logged (snd (handleWebhookEvent e1 ev s)) @
                [(Log, ''Event '' @ ev_id ev @ '' already processed, skipping'')]\<rparr>)" .
  have first: "fst (handleWebhookEvent e1 ev s) = Inr ()"
    unfolding run by simp
  from first subs mem again show ?thesis by blast
qed

theorem subscription_deleted_then_redelivered_witness:
  "fst (handleWebhookEvent env0 evt_deleted (state0\<lparr>subscriptions := [sub0]\<rparr>)) = Inr ()
   \<and> subscriptions (snd (handleWebhookEvent env0 evt_deleted (state0\<lparr>subscriptions := [sub0]\<rparr>)))
       = [sub0\<lparr>s_status := CANCELED, s_endedAt := Some 5000, s_updatedAt := 5000\<rparr>]
   \<and> subscriptions (snd (handleWebhookEvent env_later evt_deleted
         (snd (handleWebhookEvent env0 evt_deleted (state0\<lparr>subscriptions := [sub0]\<rparr>)))))
       = [sub0\<lparr>s_status := CANCELED, s_endedAt := Some 5000, s_updatedAt := 5000\<rparr>]"
proof -
  have "fst (handleWebhookEvent env0 evt_deleted (state0\<lparr>subscriptions := [sub0]\<rparr>)) = Inr ()
     \<and> subscriptions (snd (handleWebhookEvent env0 evt_deleted (state0\<lparr>subscriptions := [sub0]\<rparr>))) =
          map (\<lambda>x. if s_stripeSubscriptionId x = ss_id ssub0
                    then x\<lparr>s_status := CANCELED, s_endedAt := Some (now env0), s_updatedAt := now env0\<rparr>
                    else x) (subscriptions (state0\<lparr>subscriptions := [sub0]\<rparr>))
     \<and> sub0\<lparr>s_status := CANCELED, s_endedAt := Some (now env0), s_updatedAt := now env0\<rparr>
          \<in> set (subscriptions (snd (handleWebhookEvent env0 evt_deleted (state0\<lparr>subscriptions := [sub0]\<rparr>))))
     \<and> handleWebhookEvent env_later evt_deleted
            (snd (handleWebhookEvent env0 evt_deleted (state0\<lparr>subscriptions := [sub0]\<rparr>))) =
          (Inr (), (snd (handleWebhookEvent env0 evt_deleted (state0\<lparr>subscriptions := [sub0]\<rparr>)))
             \<lparr>logged := logged (snd (handleWebhookEvent env0 evt_deleted (state0\<lparr>subscriptions := [sub0]\<rparr>))) @
                [(Log, ''Event '' @ ev_id evt_deleted @ '' already processed, skipping'')]\<rparr>)"
    by (rule subscription_deleted_then_redelivered [where sub = ssub0])
      (simp_all add: example_defs ledger_find_def processed_def)
  then show ?thesis by (simp add: env0_def sub0_def ssub0_def)
qed

text \<open>
  Claim C6. When the reconciler throws, \<open>handleWebhookEvent\<close> rethrows the same error and
  the ledger entry of the event is left with \<open>processed = false\<close>; the endpoint turns the
  error into a \<open>BadRequestException\<close>, status 400. Whenever the endpoint acknowledges with
  200 and \<open>received: true\<close>, the ledger holds the event marked processed.
\<close>

theorem reconciler_failure_propagates:
  assumes ff: "fault e WebhookEvent_findUnique = None"
    and fu: "fault e WebhookEvent_upsert = None"
    and np: "\<not> processed (ledger_find (ev_id ev) (webhookEvents s))"
    and pe: "fst (processEvent e ev (snd (webhookEvent_upsert e ev s))) = Inl err"
  shows "fst (handleWebhookEvent e ev s) = Inl err
     \<and> (\<exists>r. ledger_find (ev_id ev) (webhookEvents (snd (handleWebhookEvent e ev s))) = Some r
            \<and> \<not> we_processed r)
     \<and> (\<forall>payload signature.
           signature \<noteq> [] \<and> sdk_webhooks_constructEvent sdk payload signature = Inr ev \<longrightarrow>
           fst (handleWebhook e sdk (Some payload) (Some signature) s)
             = Inl (BadRequestException (message err))
           \<and> http_status (fst (handleWebhook e sdk (Some payload) (Some signature) s)) = 400)
     \<and> (\<forall>e' sdk' rawBody signature s' ack.
           fst (handleWebhook e' sdk' rawBody signature s') = Inr ack \<longrightarrow>
           http_status (Inr ack) = 200 \<and> ack = Received True
           \<and> (\<exists>payload sig ev' r.
                 rawBody = Some payload \<and> signature = Some sig
                 \<and> sdk_webhooks_constructEvent sdk' payload sig = Inr ev'
                 \<and> ledger_find (ev_id ev')
                      (webhookEvents (snd (handleWebhook e' sdk' rawBody signature s'))) = Some r
                 \<and> we_processed r))"
    (is "?thrown \<and> ?unmarked \<and> ?rejected \<and> ?acknowledged")
proof -
  from handleWebhookEvent_failed [OF ff fu np pe] have t: ?thrown and u: ?unmarked
    by blast+
  have r: ?rejected
  proof (intro allI impI)
    fix payload signature
    assume "signature \<noteq> [] \<and> sdk_webhooks_constructEvent sdk payload signature = Inr ev"
    then have "fst (handleWebhook e sdk (Some payload) (Some signature) s)
                 = Inl (BadRequestException (message err))"
      using t by (simp add: handleWebhook_error)
    then show "fst (handleWebhook e sdk (Some payload) (Some signature) s)
                 = Inl (BadRequestException (message err))
               \<and> http_status (fst (handleWebhook e sdk (Some payload) (Some signature) s)) = 400"
      by (simp add: http_status_def)
  qed
  have a: ?acknowledged
  proof (intro allI impI)
    fix e' sdk' rawBody signature s' ack
    assume ok: "fst (handleWebhook e' sdk' rawBody signature s') = Inr ack"
    from handleWebhook_Inr [OF ok] obtain payload sig ev'
      where b: "rawBody = Some payload" and g: "signature = Some sig"
        and c: "sdk_webhooks_constructEvent sdk' payload sig = Inr ev'"
        and h: "fst (handleWebhookEvent e' ev' s') = Inr ()"
        and st: "snd (handleWebhook e' sdk' rawBody signature s') = snd (handleWebhookEvent e' ev' s')"
        and k: "ack = Received True"
      by blast
    from handleWebhookEvent_Inr [OF h] obtain r
      where "ledger_find (ev_id ev') (webhookEvents (snd (handleWebhookEvent e' ev' s'))) = Some r"
        and "we_processed r"
      by blast
    with b g c st k
    show "http_status (Inr ack) = 200 \<and> ack = Received True
           \<and> (\<exists>payload sig ev' r.
                 rawBody = Some payload \<and> signature = Some sig
                 \<and> sdk_webhooks_constructEvent sdk' payload sig = Inr ev'
                 \<and> ledger_find (ev_id ev')
                      (webhookEvents (snd (handleWebhook e' sdk' rawBody signature s'))) = Some r
                 \<and> we_processed r)"
      by (simp add: http_status_def)
  qed
  from t u r a show ?thesis by blast
qed

theorem reconciler_failure_propagates_witness:
  "fst (handleWebhookEvent env0 evt_customer (state0\<lparr>users := [userA, userB]\<rparr>))
     = Inl (PrismaError ''P2002'')
   \<and> fst (handleWebhook env0 (sdk_delivering evt_customer) (Some ''{}'') (Some ''t=1,v1=5f'')
            (state0\<lparr>users := [userA, userB]\<rparr>))
     = Inl (BadRequestException ''P2002'')
   \<and> http_status (fst (handleWebhook env0 (sdk_delivering evt_customer) (Some ''{}'')
        (Some ''t=1,v1=5f'') (state0\<lparr>users := [userA, userB]\<rparr>))) = 400
   \<and> fst (handleWebhook env0 (sdk_delivering evt_deleted) (Some ''{}'') (Some ''t=1,v1=5f'')
            (state0\<lparr>subscriptions := [sub0]\<rparr>)) = Inr (Received True)
   \<and> http_status (Inr (Received True)) = 200"
proof -
  have ff: "fault env0 WebhookEvent_findUnique = None"
    and fu: "fault env0 WebhookEvent_upsert = None"
    by (simp_all add: env0_def)
  have np: "\<not> processed (ledger_find (ev_id evt_customer)
              (webhookEvents (state0\<lparr>users := [userA, userB]\<rparr>)))"
    by (simp add: state0_def ledger_find_def processed_def)
  have pe: "fst (processEvent env0 evt_customer
              (snd (webhookEvent_upsert env0 evt_customer (state0\<lparr>users := [userA, userB]\<rparr>))))
            = Inl (PrismaError ''P2002'')"
    by (simp add: example_defs webhookEvent_upsert_def prisma_def handleCustomerCreated_def
        truthy_def link_customer_def)
  note w = reconciler_failure_propagates [OF ff fu np pe, of "sdk_delivering evt_customer"]
  have thrown: "fst (handleWebhookEvent env0 evt_customer (state0\<lparr>users := [userA, userB]\<rparr>))
     = Inl (PrismaError ''P2002'')"
    using w by (rule conjunct1)
  have "fst (handleWebhook env0 (sdk_delivering evt_customer) (Some ''{}'') (Some ''t=1,v1=5f'')
            (state0\<lparr>users := [userA, userB]\<rparr>))
          = Inl (BadRequestException (message (PrismaError ''P2002'')))
        \<and> http_status (fst (handleWebhook env0 (sdk_delivering evt_customer) (Some ''{}'')
             (Some ''t=1,v1=5f'') (state0\<lparr>users := [userA, userB]\<rparr>))) = 400"
    by (rule w [THEN conjunct2, THEN conjunct2, THEN conjunct1, rule_format])
      (simp add: sdk_delivering_def)
  then have rejected:
    "fst (handleWebhook env0 (sdk_delivering evt_customer) (Some ''{}'') (Some ''t=1,v1=5f'')
            (state0\<lparr>users := [userA, userB]\<rparr>))
       = Inl (BadRequestException ''P2002'')
     \<and> http_status (fst (handleWebhook env0 (sdk_delivering evt_customer) (Some ''{}'')
          (Some ''t=1,v1=5f'') (state0\<lparr>users := [userA, userB]\<rparr>))) = 400"
    by (simp add: http_status_def)
  have ok: "fst (handleWebhook env0 (sdk_delivering evt_deleted) (Some ''{}'') (Some ''t=1,v1=5f'')
            (state0\<lparr>subscriptions := [sub0]\<rparr>)) = Inr (Received True)"
    by code_simp
  from w [THEN conjunct2, THEN conjunct2, THEN conjunct2, rule_format, OF ok]
  have "http_status (Inr (Received True)) = 200"
    by (rule conjunct1)
  with thrown rejected ok show ?thesis by blast
qed

text \<open>
  Claim C10. \<open>handlePaymentMethodDetached\<close> never throws, whatever the delete answers: if
  the database rejects the delete, the state is left as it was and the handler still returns
  normally. So a \<open>payment_method.detached\<close> event whose ledger calls go through is
  acknowledged and marked processed, also when the local delete failed for a reason other than
  the row being absent.
\<close>

theorem handlePaymentMethodDetached_never_raises:
  "fst (handlePaymentMethodDetached e paymentMethod s) = Inr ()
   \<and> (fault e PaymentMethod_delete \<noteq> None \<longrightarrow>
        snd (handlePaymentMethodDetached e paymentMethod s) = s)
   \<and> (ev_data ev = PaymentMethodDetached paymentMethod
        \<and> fault e WebhookEvent_findUnique = None \<and> fault e WebhookEvent_upsert = None
        \<and> fault e WebhookEvent_update = None
      \<longrightarrow> fst (handleWebhookEvent e ev s) = Inr ()
          \<and> (\<exists>r. ledger_find (ev_id ev) (webhookEvents (snd (handleWebhookEvent e ev s))) = Some r
                 \<and> we_processed r))"
proof (intro conjI impI)
  show "fst (handlePaymentMethodDetached e paymentMethod s) = Inr ()"
    by (rule handlePaymentMethodDetached_returns)
next
  assume "fault e PaymentMethod_delete \<noteq> None"
  then show "snd (handlePaymentMethodDetached e paymentMethod s) = s"
    by (cases "fault e PaymentMethod_delete") (simp_all add: handlePaymentMethodDetached_state)
next
  assume h: "ev_data ev = PaymentMethodDetached paymentMethod
        \<and> fault e WebhookEvent_findUnique = None \<and> fault e WebhookEvent_upsert = None
        \<and> fault e WebhookEvent_update = None"
  let ?s1 = "s\<lparr>webhookEvents := ledger_upsert e ev (webhookEvents s)\<rparr>"
  have ff: "fault e WebhookEvent_findUnique = None" and fu: "fault e WebhookEvent_upsert = None"
    and fm: "fault e WebhookEvent_update = None"
    using h by simp_all
  have pe: "processEvent e ev ?s1 = (Inr (), snd (handlePaymentMethodDetached e paymentMethod ?s1))"
    using h handlePaymentMethodDetached_returns [of e paymentMethod ?s1]
    by (simp add: prod_eq_iff)
  have both: "fst (handleWebhookEvent e ev s) = Inr ()
      \<and> (\<exists>r. ledger_find (ev_id ev) (webhookEvents (snd (handleWebhookEvent e ev s))) = Some r
             \<and> we_processed r)"
  proof (cases "processed (ledger_find (ev_id ev) (webhookEvents s))")
    case True
    then obtain r where "ledger_find (ev_id ev) (webhookEvents s) = Some r" and "we_processed r"
      by (auto simp: processed_def split: option.splits)
    then show ?thesis using h True by (simp add: handleWebhookEvent_already)
  next
    case False
    from handleWebhookEvent_reconciled [OF ff fu fm False pe] obtain rows' r
      where "handleWebhookEvent e ev s =
            (Inr (), (snd (handlePaymentMethodDetached e paymentMethod ?s1))\<lparr>webhookEvents := rows',
               logged := logged (snd (handlePaymentMethodDetached e paymentMethod ?s1)) @
                 [(Log, ''Successfully processed webhook event: '' @ ev_type (ev_data ev))]\<rparr>)"
        and "ledger_find (ev_id ev) rows' = Some r" and "we_processed r"
      by blast
    then show ?thesis by simp
  qed
  from both show "fst (handleWebhookEvent e ev s) = Inr ()" by (rule conjunct1)
  from both show "\<exists>r. ledger_find (ev_id ev) (webhookEvents (snd (handleWebhookEvent e ev s))) = Some r
                 \<and> we_processed r" by (rule conjunct2)
qed

theorem handlePaymentMethodDetached_never_raises_witness:
  "fault env_delete_fails PaymentMethod_delete = Some ''Connection lost''
   \<and> fst (handleWebhookEvent env_delete_fails evt_detached (state0\<lparr>paymentMethods := [pm0]\<rparr>))
       = Inr ()
   \<and> (\<exists>r. ledger_find ''evt_3''
            (webhookEvents (snd (handleWebhookEvent env_delete_fails evt_detached
               (state0\<lparr>paymentMethods := [pm0]\<rparr>)))) = Some r \<and> we_processed r)
   \<and> snd (handlePaymentMethodDetached env_delete_fails
            \<lparr>spm_id = ''pm_1'', spm_customer = None, spm_type = ''card'', spm_card = None\<rparr>
            (state0\<lparr>paymentMethods := [pm0]\<rparr>))
       = state0\<lparr>paymentMethods := [pm0]\<rparr>"
  using handlePaymentMethodDetached_never_raises [of env_delete_fails
      "\<lparr>spm_id = ''pm_1'', spm_customer = None, spm_type = ''card'', spm_card = None\<rparr>"
      "state0\<lparr>paymentMethods := [pm0]\<rparr>" evt_detached]
  by (simp add: env_delete_fails_def env0_def evt_detached_def)

subsection \<open>Unresolved references\<close>

lemma set_update_first: "set (update_first P f xs) \<subseteq> set xs \<union> f ` set xs"
  by (induction xs) auto

lemma list_all_upsert:
  assumes "list_all Q xs" and "Q new" and "\<forall>x. Q x \<longrightarrow> Q (f x)"
  shows "list_all Q (upsert P f new xs)"
proof -
  have "\<forall>y\<in>set (update_first P f xs). Q y"
  proof
    fix y
    assume "y \<in> set (update_first P f xs)"
    with set_update_first [of P f xs] have "y \<in> set xs \<or> y \<in> f ` set xs" by blast
    with assms(1,3) show "Q y" unfolding list_all_iff by blast
  qed
  with assms(1,2) show ?thesis by (simp add: upsert_def list_all_iff)
qed

lemma find_mem: "find P xs = Some x \<Longrightarrow> x \<in> set xs"
  by (induction xs) (auto split: if_splits)

lemma handleSubscriptionUpdated_no_user:
  assumes "fault e User_findUnique = None"
    and "find (\<lambda>u. u_stripeCustomerId u = Some (ss_customer sub)) (users s) = None"
  shows "handleSubscriptionUpdated e sub s =
           (Inr (), s\<lparr>logged := logged s @
              [(Error, ''User not found for customer: '' @ ss_customer sub)]\<rparr>)"
  using assms by (simp add: handleSubscriptionUpdated_def await_def prisma_def logger_def)

lemma handleSubscriptionUpdated_no_price:
  assumes "fault e User_findUnique = None" and "fault e Price_findUnique = None"
    and "find (\<lambda>u. u_stripeCustomerId u = Some (ss_customer sub)) (users s) = Some user"
    and "case ss_items sub of [] \<Rightarrow> True
         | item # _ \<Rightarrow> find (\<lambda>p. p_stripePriceId p = si_price_id item) (prices s) = None"
  shows "handleSubscriptionUpdated e sub s =
           (Inr (), s\<lparr>logged := logged s @
              [(Error,
                case ss_items sub of
                  [] \<Rightarrow> ''No price found for subscription: '' @ ss_id sub
                | item # _ \<Rightarrow>
                    if si_price_id item = []
                    then ''No price found for subscription: '' @ ss_id sub
                    else ''Price not found for Stripe price: '' @ si_price_id item)]\<rparr>)"
  using assms
  by (simp add: handleSubscriptionUpdated_def await_def prisma_def logger_def truthy_def Let_def
      split: list.splits)

lemma handleSubscriptionUpdated_fk:
  assumes "fk_ok s"
  shows "fk_ok (snd (handleSubscriptionUpdated e sub s))"
proof -
  let ?Q = "\<lambda>r. list_ex (\<lambda>u. u_id u = s_userId r) (users s)
                 \<and> list_ex (\<lambda>p. p_id p = s_priceId r) (prices s)"
  have upd: "\<And>st x. ?Q x \<longrightarrow> ?Q (subscription_update e sub st x)"
    by (simp add: subscription_update_def)
  have new: "\<And>user price st. user \<in> set (users s) \<Longrightarrow> price \<in> set (prices s) \<Longrightarrow>
               ?Q (subscription_create e sub user price st)"
    by (auto simp add: subscription_create_def list_ex_iff)
  have ups: "\<And>user price st P. user \<in> set (users s) \<Longrightarrow> price \<in> set (prices s) \<Longrightarrow>
      fk_ok (s\<lparr>subscriptions :=
                upsert P (subscription_update e sub st) (subscription_create e sub user price st)
                  (subscriptions s)\<rparr>)"
    using assms upd new by (simp add: fk_ok_def list_all_upsert)
  have log: "\<And>m. fk_ok (s\<lparr>logged := m\<rparr>)"
    using assms by (simp add: fk_ok_def)
  show ?thesis
    using assms ups log
    by (auto simp add: handleSubscriptionUpdated_def await_def prisma_def logger_def Let_def
        dest!: find_mem split: option.splits)
qed

text \<open>
  Claim C5. For a subscription created or updated event, when the customer id resolves to no
  local user, or the user is found and the first line item is missing or its price id
  resolves to no local price, \<open>handleSubscriptionUpdated\<close> returns normally and leaves the
  state as it was except for one error line in the log: no subscription row is written. In
  every case the handler preserves referential integrity: if every subscription row
  references an existing user and price before, so it does after.
\<close>

theorem unresolved_reference_is_skipped:
  "(fault e User_findUnique = None
      \<and> find (\<lambda>u. u_stripeCustomerId u = Some (ss_customer sub)) (users s) = None
    \<longrightarrow> handleSubscriptionUpdated e sub s =
          (Inr (), s\<lparr>logged := logged s @
             [(Error, ''User not found for customer: '' @ ss_customer sub)]\<rparr>))
   \<and> (\<forall>user. fault e User_findUnique = None \<and> fault e Price_findUnique = None
         \<and> find (\<lambda>u. u_stripeCustomerId u = Some (ss_customer sub)) (users s) = Some user
         \<and> (case ss_items sub of [] \<Rightarrow> True
             | item # _ \<Rightarrow> find (\<lambda>p. p_stripePriceId p = si_price_id item) (prices s) = None)
       \<longrightarrow> handleSubscriptionUpdated e sub s =
             (Inr (), s\<lparr>logged := logged s @
                [(Error,
                  case ss_items sub of
                    [] \<Rightarrow> ''No price found for subscription: '' @ ss_id sub
                  | item # _ \<Rightarrow>
                      if si_price_id item = []
                      then ''No price found for subscription: '' @ ss_id sub
                      else ''Price not found for Stripe price: '' @ si_price_id item)]\<rparr>))
   \<and> (fk_ok s \<longrightarrow> fk_ok (snd (handleSubscriptionUpdated e sub s)))
   \<and> processEvent e \<lparr>ev_id = i, ev_data = CustomerSubscriptionCreated sub, ev_json = j\<rparr>
       = handleSubscriptionUpdated e sub
   \<and> processEvent e \<lparr>ev_id = i, ev_data = CustomerSubscriptionUpdated sub, ev_json = j\<rparr>
       = handleSubscriptionUpdated e sub"
proof (intro conjI allI impI)
  assume "fault e User_findUnique = None
      \<and> find (\<lambda>u. u_stripeCustomerId u = Some (ss_customer sub)) (users s) = None"
  then show "handleSubscriptionUpdated e sub s =
          (Inr (), s\<lparr>logged := logged s @
             [(Error, ''User not found for customer: '' @ ss_customer sub)]\<rparr>)"
    by (intro handleSubscriptionUpdated_no_user) simp_all
next
  fix user
  assume "fault e User_findUnique = None \<and> fault e Price_findUnique = None
         \<and> find (\<lambda>u. u_stripeCustomerId u = Some (ss_customer sub)) (users s) = Some user
         \<and> (case ss_items sub of [] \<Rightarrow> True
             | item # _ \<Rightarrow> find (\<lambda>p. p_stripePriceId p = si_price_id item) (prices s) = None)"
  then show "handleSubscriptionUpdated e sub s =
             (Inr (), s\<lparr>logged := logged s @
                [(Error,
                  case ss_items sub of
                    [] \<Rightarrow> ''No price found for subscription: '' @ ss_id sub
                  | item # _ \<Rightarrow>
                      if si_price_id item = []
                      then ''No price found for subscription: '' @ ss_id sub
                      else ''Price not found for Stripe price: '' @ si_price_id item)]\<rparr>)"
    by (intro handleSubscriptionUpdated_no_price [where user = user]) simp_all
next
  assume "fk_ok s"
  then show "fk_ok (snd (handleSubscriptionUpdated e sub s))"
    by (rule handleSubscriptionUpdated_fk)
next
  show "processEvent e \<lparr>ev_id = i, ev_data = CustomerSubscriptionCreated sub, ev_json = j\<rparr>
       = handleSubscriptionUpdated e sub"
    by (rule ext) simp
next
  show "processEvent e \<lparr>ev_id = i, ev_data = CustomerSubscriptionUpdated sub, ev_json = j\<rparr>
       = handleSubscriptionUpdated e sub"
    by (rule ext) simp
qed

theorem unresolved_reference_is_skipped_witness:
  "handleSubscriptionUpdated env0 ssub0 state0 =
     (Inr (), state0\<lparr>logged := [(Error, ''User not found for customer: cus_1'')]\<rparr>)
   \<and> handleSubscriptionUpdated env0 ssub0 (state0\<lparr>users := [userA]\<rparr>) =
     (Inr (), state0\<lparr>users := [userA],
                      logged := [(Error, ''Price not found for Stripe price: price_1'')]\<rparr>)
   \<and> fk_ok (state0\<lparr>users := [userA], prices := [price0]\<rparr>)
   \<and> length (subscriptions (snd (handleSubscriptionUpdated env0 ssub0
         (state0\<lparr>users := [userA], prices := [price0]\<rparr>)))) = 1
   \<and> fk_ok (snd (handleSubscriptionUpdated env0 ssub0
         (state0\<lparr>users := [userA], prices := [price0]\<rparr>)))"
proof -
  note w = unresolved_reference_is_skipped [of env0 ssub0]
  have a: "handleSubscriptionUpdated env0 ssub0 state0 =
     (Inr (), state0\<lparr>logged := logged state0 @
        [(Error, ''User not found for customer: '' @ ss_customer ssub0)]\<rparr>)"
    by (rule w [THEN conjunct1, rule_format]) (simp add: example_defs)
  have b: "handleSubscriptionUpdated env0 ssub0 (state0\<lparr>users := [userA]\<rparr>) =
     (Inr (), state0\<lparr>users := [userA]\<rparr>\<lparr>logged := logged (state0\<lparr>users := [userA]\<rparr>) @
        [(Error,
          case ss_items ssub0 of
            [] \<Rightarrow> ''No price found for subscription: '' @ ss_id ssub0
          | item # _ \<Rightarrow>
              if si_price_id item = []
              then ''No price found for subscription: '' @ ss_id ssub0
              else ''Price not found for Stripe price: '' @ si_price_id item)]\<rparr>)"
    by (rule w [THEN conjunct2, THEN conjunct1, rule_format, where user = userA])
      (simp add: example_defs)
  have c: "fk_ok (state0\<lparr>users := [userA], prices := [price0]\<rparr>)"
    by (simp add: fk_ok_def state0_def)
  have d: "fk_ok (snd (handleSubscriptionUpdated env0 ssub0
         (state0\<lparr>users := [userA], prices := [price0]\<rparr>)))"
    by (rule w [THEN conjunct2, THEN conjunct2, THEN conjunct1, rule_format, OF c])
  have l: "length (subscriptions (snd (handleSubscriptionUpdated env0 ssub0
         (state0\<lparr>users := [userA], prices := [price0]\<rparr>)))) = 1"
    by code_simp
  from a b c d l show ?thesis by (simp add: state0_def ssub0_def)
qed

subsection \<open>Local actions\<close>

lemma rollbackI:
  "(case m s of (Inl err, s') \<Rightarrow> s' = s | (Inr x, s') \<Rightarrow> True) \<Longrightarrow>
   fst (m s) = Inl err \<Longrightarrow> snd (m s) = s"
  by (cases "m s") (auto split: sum.splits)

lemma createPortalSession_state:
  "snd (createPortalSession e sdk appUrl userId s) = s"
  by (simp add: createPortalSession_def io_defs Let_def split: option.split)

lemma cancelSubscription_rollback:
  "fst (cancelSubscription e sdk userId subscriptionId immediate s) = Inl err \<Longrightarrow>
   snd (cancelSubscription e sdk userId subscriptionId immediate s) = s"
  by (rule rollbackI)
    (simp add: cancelSubscription_def io_defs split: option.split sum.split prod.split)

lemma reactivateSubscription_rollback:
  "fst (reactivateSubscription e sdk userId subscriptionId s) = Inl err \<Longrightarrow>
   snd (reactivateSubscription e sdk userId subscriptionId s) = s"
  by (rule rollbackI)
    (simp add: reactivateSubscription_def io_defs split: option.split sum.split prod.split)

lemma changeSubscription_rollback:
  "fst (changeSubscription e sdk userId subscriptionId newPriceId s) = Inl err \<Longrightarrow>
   snd (changeSubscription e sdk userId subscriptionId newPriceId s) = s"
  by (rule rollbackI)
    (simp add: changeSubscription_def io_defs split: option.split sum.split prod.split)

lemma checkoutForPrice_state:
  "snd (checkoutForPrice e sdk userId dto cid s) = s"
  by (simp add: checkoutForPrice_def io_defs split: option.split)

lemma ensureStripeCustomer_linked:
  assumes "truthy (u_stripeCustomerId user)"
  shows "snd (ensureStripeCustomer e sdk userId user s) = s"
    and "\<exists>cid. fst (ensureStripeCustomer e sdk userId user s) = Inr cid"
  using assms by (simp_all add: ensureStripeCustomer_def ret_def)

lemma ensureStripeCustomer_unlinked:
  assumes "\<not> truthy (u_stripeCustomerId user)"
  shows "(case ensureStripeCustomer e sdk userId user s of
            (Inl err, s') \<Rightarrow> s' = s
          | (Inr cid, s') \<Rightarrow>
              (case sdk_customers_create sdk (u_email user) (customer_name user) of
                 Inl _ \<Rightarrow> False
               | Inr customer \<Rightarrow>
                   s' = s\<lparr>users := updateMany (\<lambda>u. u_id u = userId)
                          (\<lambda>u. u\<lparr>u_stripeCustomerId := Some (sc_id customer), u_updatedAt := now e\<rparr>)
                          (users s)\<rparr>))"
  using assms
  by (simp add: ensureStripeCustomer_def io_defs user_update_stripeCustomerId_def
      link_customer_def split: sum.split option.split)

lemma await_then_read:
  assumes "\<And>x s'. snd (f x s') = s'"
  shows "snd (await m f s) = snd (m s)"
  using assms by (cases "m s") (simp add: await_def split: sum.split)

lemma createCheckoutSession_state:
  assumes "fault e User_findUnique = None"
    and "find (\<lambda>u. u_id u = userId) (users s) = Some user"
  shows "snd (createCheckoutSession e sdk userId dto s)
           = snd (ensureStripeCustomer e sdk userId user s)"
proof -
  have "createCheckoutSession e sdk userId dto s =
          await (ensureStripeCustomer e sdk userId user) (checkoutForPrice e sdk userId dto) s"
    using assms by (simp add: createCheckoutSession_def await_def [of "prisma e c op" for c op] prisma_def)
  then show ?thesis
    by (simp add: await_then_read checkoutForPrice_state)
qed

lemma createCheckoutSession_error:
  assumes err: "fst (createCheckoutSession e sdk userId dto s) = Inl err"
  shows "snd (createCheckoutSession e sdk userId dto s) = s
         \<or> (\<exists>user customer.
               find (\<lambda>u. u_id u = userId) (users s) = Some user
               \<and> \<not> truthy (u_stripeCustomerId user)
               \<and> sdk_customers_create sdk (u_email user) (customer_name user) = Inr customer
               \<and> snd (createCheckoutSession e sdk userId dto s) =
                   s\<lparr>users := updateMany (\<lambda>u. u_id u = userId)
                          (\<lambda>u. u\<lparr>u_stripeCustomerId := Some (sc_id customer), u_updatedAt := now e\<rparr>)
                          (users s)\<rparr>)"
proof (cases "fault e User_findUnique")
  case (Some m)
  then have "snd (createCheckoutSession e sdk userId dto s) = s"
    by (simp add: createCheckoutSession_def await_def prisma_def)
  then show ?thesis by (rule disjI1)
next
  case ff: None
  show ?thesis
  proof (cases "find (\<lambda>u. u_id u = userId) (users s)")
    case None
    with ff have "snd (createCheckoutSession e sdk userId dto s) = s"
      by (simp add: createCheckoutSession_def await_def prisma_def throw_def)
    then show ?thesis by (rule disjI1)
  next
    case (Some user)
    note st = createCheckoutSession_state [OF ff Some, where sdk = sdk and dto = dto]
    show ?thesis
    proof (cases "truthy (u_stripeCustomerId user)")
      case True
      then have "snd (createCheckoutSession e sdk userId dto s) = s"
        unfolding st by (rule ensureStripeCustomer_linked(1))
      then show ?thesis by (rule disjI1)
    next
      case False
      obtain r s1 where en: "ensureStripeCustomer e sdk userId user s = (r, s1)"
        by (cases "ensureStripeCustomer e sdk userId user s")
      show ?thesis
      proof (cases r)
        case (Inl x)
        with ensureStripeCustomer_unlinked [OF False, where e = e and sdk = sdk and userId = userId and s = s] en have "s1 = s"
          by simp
        with en have "snd (createCheckoutSession e sdk userId dto s) = s"
          unfolding st by simp
        then show ?thesis by (rule disjI1)
      next
        case (Inr cid)
        with ensureStripeCustomer_unlinked [OF False, where e = e and sdk = sdk and userId = userId and s = s] en
        obtain customer
          where c: "sdk_customers_create sdk (u_email user) (customer_name user) = Inr customer"
            and s1: "s1 = s\<lparr>users := updateMany (\<lambda>u. u_id u = userId)
                          (\<lambda>u. u\<lparr>u_stripeCustomerId := Some (sc_id customer), u_updatedAt := now e\<rparr>)
                          (users s)\<rparr>"
          by (cases "sdk_customers_create sdk (u_email user) (customer_name user)") simp_all
        from en s1 have "snd (createCheckoutSession e sdk userId dto s) =
                   s\<lparr>users := updateMany (\<lambda>u. u_id u = userId)
                          (\<lambda>u. u\<lparr>u_stripeCustomerId := Some (sc_id customer), u_updatedAt := now e\<rparr>)
                          (users s)\<rparr>"
          unfolding st by simp
        with Some False c show ?thesis by blast
      qed
    qed
  qed
qed

lemma createCheckoutSession_linked_rollback:
  assumes "find (\<lambda>u. u_id u = userId) (users s) = Some user"
    and "truthy (u_stripeCustomerId user)"
  shows "snd (createCheckoutSession e sdk userId dto s) = s"
proof (cases "fault e User_findUnique")
  case (Some m)
  then show ?thesis by (simp add: createCheckoutSession_def await_def prisma_def)
next
  case None
  from createCheckoutSession_state [OF None assms(1), where sdk = sdk and dto = dto]
    ensureStripeCustomer_linked(1) [OF assms(2), where e = e and sdk = sdk and userId = userId and s = s]
  show ?thesis by simp
qed

text \<open>
  Claim C2, as the code has it. An error of \<open>createPortalSession\<close>,
  \<open>cancelSubscription\<close>, \<open>reactivateSubscription\<close> or \<open>changeSubscription\<close> leaves the
  stored state as it was, and so does an error of \<open>createCheckoutSession\<close> for a user who
  already has a Stripe customer id. For a user without one, \<open>createCheckoutSession\<close> writes
  the id of the customer it has just created before it looks at the price: when it fails, the
  state is either as it was or differs in exactly that write.
\<close>

theorem action_errors_and_local_writes:
  "(fst (createPortalSession e sdk appUrl userId s) = Inl err \<longrightarrow>
      snd (createPortalSession e sdk appUrl userId s) = s)
   \<and> (fst (cancelSubscription e sdk userId subscriptionId immediate s) = Inl err \<longrightarrow>
        snd (cancelSubscription e sdk userId subscriptionId immediate s) = s)
   \<and> (fst (reactivateSubscription e sdk userId subscriptionId s) = Inl err \<longrightarrow>
        snd (reactivateSubscription e sdk userId subscriptionId s) = s)
   \<and> (fst (changeSubscription e sdk userId subscriptionId newPriceId s) = Inl err \<longrightarrow>
        snd (changeSubscription e sdk userId subscriptionId newPriceId s) = s)
   \<and> (\<forall>user. fst (createCheckoutSession e sdk userId dto s) = Inl err
          \<and> find (\<lambda>u. u_id u = userId) (users s) = Some user
          \<and> truthy (u_stripeCustomerId user) \<longrightarrow>
        snd (createCheckoutSession e sdk userId dto s) = s)
   \<and> (fst (createCheckoutSession e sdk userId dto s) = Inl err \<longrightarrow>
        snd (createCheckoutSession e sdk userId dto s) = s
        \<or> (\<exists>user customer.
              find (\<lambda>u. u_id u = userId) (users s) = Some user
              \<and> \<not> truthy (u_stripeCustomerId user)
              \<and> sdk_customers_create sdk (u_email user) (customer_name user) = Inr customer
              \<and> snd (createCheckoutSession e sdk userId dto s) =
                  s\<lparr>users := updateMany (\<lambda>u. u_id u = userId)
                         (\<lambda>u. u\<lparr>u_stripeCustomerId := Some (sc_id customer), u_updatedAt := now e\<rparr>)
                         (users s)\<rparr>))"
proof (intro conjI impI allI)
  show "snd (createPortalSession e sdk appUrl userId s) = s"
    by (rule createPortalSession_state)
next
  assume "fst (cancelSubscription e sdk userId subscriptionId immediate s) = Inl err"
  then show "snd (cancelSubscription e sdk userId subscriptionId immediate s) = s"
    by (rule cancelSubscription_rollback)
next
  assume "fst (reactivateSubscription e sdk userId subscriptionId s) = Inl err"
  then show "snd (reactivateSubscription e sdk userId subscriptionId s) = s"
    by (rule reactivateSubscription_rollback)
next
  assume "fst (changeSubscription e sdk userId subscriptionId newPriceId s) = Inl err"
  then show "snd (changeSubscription e sdk userId subscriptionId newPriceId s) = s"
    by (rule changeSubscription_rollback)
next
  fix user
  assume "fst (createCheckoutSession e sdk userId dto s) = Inl err
          \<and> find (\<lambda>u. u_id u = userId) (users s) = Some user
          \<and> truthy (u_stripeCustomerId user)"
  then show "snd (createCheckoutSession e sdk userId dto s) = s"
    by (intro createCheckoutSession_linked_rollback [where user = user]) simp_all
next
  assume "fst (createCheckoutSession e sdk userId dto s) = Inl err"
  then show "snd (createCheckoutSession e sdk userId dto s) = s
        \<or> (\<exists>user customer.
              find (\<lambda>u. u_id u = userId) (users s) = Some user
              \<and> \<not> truthy (u_stripeCustomerId user)
              \<and> sdk_customers_create sdk (u_email user) (customer_name user) = Inr customer
              \<and> snd (createCheckoutSession e sdk userId dto s) =
                  s\<lparr>users := updateMany (\<lambda>u. u_id u = userId)
                         (\<lambda>u. u\<lparr>u_stripeCustomerId := Some (sc_id customer), u_updatedAt := now e\<rparr>)
                         (users s)\<rparr>)"
    by (rule createCheckoutSession_error)
qed

theorem action_errors_and_local_writes_witness:
  "createPortalSession env0 sdk0 None ''u2'' (state0\<lparr>users := [userB]\<rparr>)
     = (Inl (NotFoundException ''User or Stripe customer not found''), state0\<lparr>users := [userB]\<rparr>)
   \<and> cancelSubscription env0 sdk_down ''u1'' ''s1'' False (state0\<lparr>subscriptions := [sub0]\<rparr>)
     = (Inl (StripeError ''api_connection_error''), state0\<lparr>subscriptions := [sub0]\<rparr>)
   \<and> reactivateSubscription env0 sdk0 ''u1'' ''s1'' (state0\<lparr>subscriptions := [sub0]\<rparr>)
     = (Inl (NotFoundException ''Subscription not found or not eligible for reactivation''),
        state0\<lparr>subscriptions := [sub0]\<rparr>)
   \<and> changeSubscription env0 sdk0 ''u1'' ''s1'' ''price_9'' (state0\<lparr>subscriptions := [sub0]\<rparr>)
     = (Inl (BadRequestException ''Invalid or inactive price''), state0\<lparr>subscriptions := [sub0]\<rparr>)
   \<and> createCheckoutSession env0 sdk0 ''u1'' dto0 (state0\<lparr>users := [userA]\<rparr>)
     = (Inl (BadRequestException ''Invalid or inactive price''), state0\<lparr>users := [userA]\<rparr>)
   \<and> users (snd (createCheckoutSession env0 sdk_down ''u2'' dto0 (state0\<lparr>users := [userB]\<rparr>)))
     = [userB]"
proof -
  have e1: "fst (createPortalSession env0 sdk0 None ''u2'' (state0\<lparr>users := [userB]\<rparr>))
              = Inl (NotFoundException ''User or Stripe customer not found'')"
    by code_simp
  have e2: "fst (cancelSubscription env0 sdk_down ''u1'' ''s1'' False
              (state0\<lparr>subscriptions := [sub0]\<rparr>)) = Inl (StripeError ''api_connection_error'')"
    by code_simp
  have e3: "fst (reactivateSubscription env0 sdk0 ''u1'' ''s1'' (state0\<lparr>subscriptions := [sub0]\<rparr>))
              = Inl (NotFoundException ''Subscription not found or not eligible for reactivation'')"
    by code_simp
  have e4: "fst (changeSubscription env0 sdk0 ''u1'' ''s1'' ''price_9''
              (state0\<lparr>subscriptions := [sub0]\<rparr>)) = Inl (BadRequestException ''Invalid or inactive price'')"
    by code_simp
  have e5: "fst (createCheckoutSession env0 sdk0 ''u1'' dto0 (state0\<lparr>users := [userA]\<rparr>))
              = Inl (BadRequestException ''Invalid or inactive price'')
            \<and> find (\<lambda>u. u_id u = ''u1'') (users (state0\<lparr>users := [userA]\<rparr>)) = Some userA
            \<and> truthy (u_stripeCustomerId userA)"
    by code_simp
  have e6: "fst (createCheckoutSession env0 sdk_down ''u2'' dto0 (state0\<lparr>users := [userB]\<rparr>))
              = Inl (StripeError ''api_connection_error'')"
    by code_simp
  have no_customer: "sdk_customers_create sdk_down x y \<noteq> Inr c" for x y c
    by (simp add: sdk_down_def)
  note w = action_errors_and_local_writes
  have s1: "snd (createPortalSession env0 sdk0 None ''u2'' (state0\<lparr>users := [userB]\<rparr>))
              = state0\<lparr>users := [userB]\<rparr>"
    by (rule w [THEN conjunct1, rule_format, OF e1])
  have s2: "snd (cancelSubscription env0 sdk_down ''u1'' ''s1'' False
              (state0\<lparr>subscriptions := [sub0]\<rparr>)) = state0\<lparr>subscriptions := [sub0]\<rparr>"
    by (rule w [THEN conjunct2, THEN conjunct1, rule_format, OF e2])
  have s3: "snd (reactivateSubscription env0 sdk0 ''u1'' ''s1'' (state0\<lparr>subscriptions := [sub0]\<rparr>))
              = state0\<lparr>subscriptions := [sub0]\<rparr>"
    by (rule w [THEN conjunct2, THEN conjunct2, THEN conjunct1, rule_format, OF e3])
  have s4: "snd (changeSubscription env0 sdk0 ''u1'' ''s1'' ''price_9''
              (state0\<lparr>subscriptions := [sub0]\<rparr>)) = state0\<lparr>subscriptions := [sub0]\<rparr>"
    by (rule w [THEN conjunct2, THEN conjunct2, THEN conjunct2, THEN conjunct1, rule_format,
          OF e4])
  have s5: "snd (createCheckoutSession env0 sdk0 ''u1'' dto0 (state0\<lparr>users := [userA]\<rparr>))
              = state0\<lparr>users := [userA]\<rparr>"
    by (rule w [THEN conjunct2, THEN conjunct2, THEN conjunct2, THEN conjunct2, THEN conjunct1,
          rule_format, OF e5])
  from w [THEN conjunct2, THEN conjunct2, THEN conjunct2, THEN conjunct2, THEN conjunct2,
      rule_format, OF e6] no_customer
  have "snd (createCheckoutSession env0 sdk_down ''u2'' dto0 (state0\<lparr>users := [userB]\<rparr>))
          = state0\<lparr>users := [userB]\<rparr>"
    by blast
  then have s6: "users (snd (createCheckoutSession env0 sdk_down ''u2'' dto0
                   (state0\<lparr>users := [userB]\<rparr>))) = [userB]"
    by simp
  from e1 e2 e3 e4 e5 s1 s2 s3 s4 s5 s6 show ?thesis
    by (simp add: prod_eq_iff)
qed

text \<open>
  Claim C2 as stated fails: for a user without a Stripe customer id and a price that is not
  in the local catalogue, \<open>createCheckoutSession\<close> returns the invalid-price error after
  it has stored the new customer id on the user row.
\<close>

theorem createCheckoutSession_partial_write:
  "fst (createCheckoutSession env0 sdk0 ''u2'' dto0 (state0\<lparr>users := [userB]\<rparr>))
     = Inl (BadRequestException ''Invalid or inactive price'')
   \<and> snd (createCheckoutSession env0 sdk0 ''u2'' dto0 (state0\<lparr>users := [userB]\<rparr>))
     = state0\<lparr>users := [userB\<lparr>u_stripeCustomerId := Some ''cus_new'', u_updatedAt := 5000\<rparr>]\<rparr>
   \<and> snd (createCheckoutSession env0 sdk0 ''u2'' dto0 (state0\<lparr>users := [userB]\<rparr>))
     \<noteq> state0\<lparr>users := [userB]\<rparr>"
  by code_simp

subsection \<open>Concurrent deliveries of one event\<close>

lemma step_AtFind_processed:
  assumes "processed (ledger_find (ev_id ev) (webhookEvents s))"
  shows "\<exists>p s'. step e ev AtFind s = (p, s') \<and> p \<in> {Returned} \<union> range Thrown
           \<and> webhookEvents s' = webhookEvents s"
  using assms
  by (cases "fault e WebhookEvent_findUnique")
    (simp_all add: step_def webhookEvent_findUnique_def prisma_def logger_def)

lemma step_AtFind_unprocessed:
  assumes "fault e WebhookEvent_findUnique = None"
    and "\<not> processed (ledger_find (ev_id ev) (webhookEvents s))"
  shows "step e ev AtFind s = (AtUpsert, s)"
  using assms by (simp add: step_def webhookEvent_findUnique_ok)

lemma step_AtUpsert:
  assumes "fault e WebhookEvent_upsert = None"
  shows "step e ev AtUpsert s = (AtProcess, s\<lparr>webhookEvents := ledger_upsert e ev (webhookEvents s)\<rparr>)"
  using assms by (simp add: step_def webhookEvent_upsert_ok)

lemma step_done:
  "step e ev Returned s = (Returned, s)" "step e ev (Thrown err) s = (Thrown err, s)"
  by (simp_all add: step_def)

lemma processed_ledger_upsert:
  "processed (ledger_find (ev_id ev) (ledger_upsert e ev rows))
     = processed (ledger_find (ev_id ev) rows)"
  using ledger_find_upsert [of ev e rows] by (auto simp add: processed_def)

text \<open>While the event is marked processed, no delivery gets past the ledger read.\<close>

lemma sched_step_processed:
  assumes "pcA c \<in> {AtFind, Returned} \<union> range Thrown"
    and "pcB c \<in> {AtFind, Returned} \<union> range Thrown"
    and "processed (ledger_find (ev_id ev) (webhookEvents (store c)))"
  shows "pcA (sched_step eA eB ev a c) \<in> {AtFind, Returned} \<union> range Thrown
       \<and> pcB (sched_step eA eB ev a c) \<in> {AtFind, Returned} \<union> range Thrown
       \<and> processed (ledger_find (ev_id ev) (webhookEvents (store (sched_step eA eB ev a c))))
       \<and> reconciled (sched_step eA eB ev a c) = reconciled c"
proof (cases a)
  case True
  show ?thesis
  proof (cases "pcA c = AtFind")
    case at: True
    from step_AtFind_processed [OF assms(3), of eA] obtain p s'
      where "step eA ev AtFind (store c) = (p, s')" and "p \<in> {Returned} \<union> range Thrown"
        and "webhookEvents s' = webhookEvents (store c)"
      by blast
    with True at assms show ?thesis by (simp add: sched_step_def)
  next
    case False
    with assms(1) have "step eA ev (pcA c) (store c) = (pcA c, store c)"
      by (auto simp add: step_done)
    moreover from False assms(1) have "pcA c \<noteq> AtProcess" by auto
    ultimately show ?thesis using True False assms by (simp add: sched_step_def)
  qed
next
  case False
  show ?thesis
  proof (cases "pcB c = AtFind")
    case at: True
    from step_AtFind_processed [OF assms(3), of eB] obtain p s'
      where "step eB ev AtFind (store c) = (p, s')" and "p \<in> {Returned} \<union> range Thrown"
        and "webhookEvents s' = webhookEvents (store c)"
      by blast
    with False at assms show ?thesis by (simp add: sched_step_def)
  next
    case nf: False
    with assms(2) have "step eB ev (pcB c) (store c) = (pcB c, store c)"
      by (auto simp add: step_done)
    moreover from nf assms(2) have "pcB c \<noteq> AtProcess" by auto
    ultimately show ?thesis using False nf assms by (simp add: sched_step_def)
  qed
qed

lemma run_processed:
  assumes "pcA c \<in> {AtFind, Returned} \<union> range Thrown"
    and "pcB c \<in> {AtFind, Returned} \<union> range Thrown"
    and "processed (ledger_find (ev_id ev) (webhookEvents (store c)))"
  shows "reconciled (run eA eB ev schedule c) = reconciled c"
  using assms
proof (induction schedule arbitrary: c)
  case Nil
  then show ?case by (simp add: run_def)
next
  case (Cons a schedule)
  from sched_step_processed [OF Cons.prems, of eA eB a]
  have "reconciled (run eA eB ev schedule (sched_step eA eB ev a c))
          = reconciled (sched_step eA eB ev a c)"
    and "reconciled (sched_step eA eB ev a c) = reconciled c"
    by (simp_all add: Cons.IH)
  then show ?case by (simp add: run_def)
qed

lemma run_race:
  assumes "fault eA WebhookEvent_findUnique = None" and "fault eA WebhookEvent_upsert = None"
    and "fault eB WebhookEvent_findUnique = None" and "fault eB WebhookEvent_upsert = None"
    and "\<not> processed (ledger_find (ev_id ev) (webhookEvents s))"
  shows "pcA (run eA eB ev [True, False, True, False] (start s)) = AtProcess"
    and "pcB (run eA eB ev [True, False, True, False] (start s)) = AtProcess"
    and "reconciled (run eA eB ev [True, False, True, False, True, False] (start s)) = 2"
  using assms
  by (simp_all add: run_def sched_step_def start_def step_AtFind_unprocessed step_AtUpsert
      split: prod.split)

lemma run_alone:
  "outcome (pcA (run eA eB ev [True, True, True, True] (start s)))
     = Some (fst (handleWebhookEvent eA ev s))
   \<and> store (run eA eB ev [True, True, True, True] (start s)) = snd (handleWebhookEvent eA ev s)"
proof -
  note defs = run_def sched_step_def start_def step_def outcome_def handleWebhookEvent_unfold
    logger_def
  obtain r0 s0 where f: "webhookEvent_findUnique eA (ev_id ev) s = (r0, s0)"
    by (cases "webhookEvent_findUnique eA (ev_id ev) s")
  show ?thesis
  proof (cases r0)
    case (Inl err)
    with f show ?thesis by (simp add: defs del: processEvent.simps)
  next
    case (Inr existingEvent)
    note r0 = this
    show ?thesis
    proof (cases "processed existingEvent")
      case True
      with f r0 show ?thesis by (simp add: defs del: processEvent.simps)
    next
      case np: False
      obtain r1 s1 where u: "webhookEvent_upsert eA ev s0 = (r1, s1)"
        by (cases "webhookEvent_upsert eA ev s0")
      show ?thesis
      proof (cases r1)
        case (Inl err)
        with f r0 np u show ?thesis by (simp add: defs del: processEvent.simps)
      next
        case (Inr x1)
        note r1 = this
        obtain r2 s2 where p: "processEvent eA ev s1 = (r2, s2)"
          by (cases "processEvent eA ev s1")
        show ?thesis
        proof (cases r2)
          case (Inl err)
          with f r0 np u r1 p show ?thesis by (simp add: defs del: processEvent.simps)
        next
          case (Inr x2)
          note r2 = this
          obtain r3 s3 where m: "webhookEvent_markProcessed eA (ev_id ev) s2 = (r3, s3)"
            by (cases "webhookEvent_markProcessed eA (ev_id ev) s2")
          show ?thesis
          proof (cases r3)
            case (Inl err)
            with f r0 np u r1 p r2 m show ?thesis by (simp add: defs del: processEvent.simps)
          next
            case (Inr x3)
            with f r0 np u r1 p r2 m show ?thesis by (simp add: defs del: processEvent.simps)
          qed
        qed
      qed
    qed
  qed
qed

text \<open>
  Claim C1, as the code has it. The claim step of \<open>handleWebhookEvent\<close> is a ledger read
  (\<open>findUnique\<close>) followed by a separate \<open>upsert\<close>. What the read protects: once the
  event is marked processed, no delivery enters the reconciler, under every schedule. What it
  does not protect: for an event not yet marked processed, when both deliveries read before
  either upserts, both are admitted to the reconciler and both enter it.
\<close>

theorem ledger_claim_is_read_then_upsert:
  "(processed (ledger_find (ev_id ev) (webhookEvents s)) \<longrightarrow>
      reconciled (run eA eB ev schedule (start s)) = 0)
   \<and> (\<not> processed (ledger_find (ev_id ev) (webhookEvents s))
        \<and> fault eA WebhookEvent_findUnique = None \<and> fault eA WebhookEvent_upsert = None
        \<and> fault eB WebhookEvent_findUnique = None \<and> fault eB WebhookEvent_upsert = None
      \<longrightarrow> pcA (run eA eB ev [True, False, True, False] (start s)) = AtProcess
          \<and> pcB (run eA eB ev [True, False, True, False] (start s)) = AtProcess
          \<and> reconciled (run eA eB ev [True, False, True, False, True, False] (start s)) = 2)"
proof (intro conjI impI)
  assume p: "processed (ledger_find (ev_id ev) (webhookEvents s))"
  have "reconciled (run eA eB ev schedule (start s)) = reconciled (start s)"
    by (rule run_processed) (simp_all add: start_def p)
  then show "reconciled (run eA eB ev schedule (start s)) = 0"
    by (simp add: start_def)
next
  assume h: "\<not> processed (ledger_find (ev_id ev) (webhookEvents s))
        \<and> fault eA WebhookEvent_findUnique = None \<and> fault eA WebhookEvent_upsert = None
        \<and> fault eB WebhookEvent_findUnique = None \<and> fault eB WebhookEvent_upsert = None"
  then show "pcA (run eA eB ev [True, False, True, False] (start s)) = AtProcess"
    by (intro run_race(1)) simp_all
  from h show "pcB (run eA eB ev [True, False, True, False] (start s)) = AtProcess"
    by (intro run_race(2)) simp_all
  from h show "reconciled (run eA eB ev [True, False, True, False, True, False] (start s)) = 2"
    by (intro run_race(3)) simp_all
qed

theorem ledger_claim_is_read_then_upsert_witness:
  "processed (ledger_find ''evt_1''
      (webhookEvents (snd (handleWebhookEvent env0 evt_deleted (state0\<lparr>subscriptions := [sub0]\<rparr>)))))
   \<and> reconciled (run env0 env_later evt_deleted [True, False, False, True, True, False, True, False]
        (start (snd (handleWebhookEvent env0 evt_deleted (state0\<lparr>subscriptions := [sub0]\<rparr>))))) = 0
   \<and> \<not> processed (ledger_find ''evt_1'' (webhookEvents (state0\<lparr>subscriptions := [sub0]\<rparr>)))
   \<and> pcA (run env0 env_later evt_deleted [True, False, True, False]
        (start (state0\<lparr>subscriptions := [sub0]\<rparr>))) = AtProcess
   \<and> pcB (run env0 env_later evt_deleted [True, False, True, False]
        (start (state0\<lparr>subscriptions := [sub0]\<rparr>))) = AtProcess"
proof -
  let ?s1 = "snd (handleWebhookEvent env0 evt_deleted (state0\<lparr>subscriptions := [sub0]\<rparr>))"
  have p: "processed (ledger_find (ev_id evt_deleted) (webhookEvents ?s1))"
    by code_simp
  have np: "\<not> processed (ledger_find (ev_id evt_deleted)
              (webhookEvents (state0\<lparr>subscriptions := [sub0]\<rparr>)))
        \<and> fault env0 WebhookEvent_findUnique = None \<and> fault env0 WebhookEvent_upsert = None
        \<and> fault env_later WebhookEvent_findUnique = None
        \<and> fault env_later WebhookEvent_upsert = None"
    by (simp add: example_defs ledger_find_def processed_def)
  have id: "ev_id evt_deleted = ''evt_1''"
    by (simp add: evt_deleted_def)
  note w = ledger_claim_is_read_then_upsert
  have a: "reconciled (run env0 env_later evt_deleted
             [True, False, False, True, True, False, True, False] (start ?s1)) = 0"
    by (rule w [THEN conjunct1, rule_format, OF p])
  have b: "pcA (run env0 env_later evt_deleted [True, False, True, False]
              (start (state0\<lparr>subscriptions := [sub0]\<rparr>))) = AtProcess
          \<and> pcB (run env0 env_later evt_deleted [True, False, True, False]
              (start (state0\<lparr>subscriptions := [sub0]\<rparr>))) = AtProcess
          \<and> reconciled (run env0 env_later evt_deleted [True, False, True, False, True, False]
              (start (state0\<lparr>subscriptions := [sub0]\<rparr>))) = 2"
    by (rule w [THEN conjunct2, rule_format, OF np])
  from p np a b show ?thesis unfolding id by blast
qed

text \<open>
  Claim C1 as stated fails: two deliveries of \<open>evt_1\<close>, taking their steps in turn, both
  read the ledger before either has written it, both run the reconciler, and both return
  normally; the second run stamps \<open>endedAt\<close> again, two seconds after the first.
\<close>

theorem concurrent_deliveries_both_reconcile:
  "reconciled (run env0 env_later evt_deleted [True, False, True, False, True, False, True, False]
     (start (state0\<lparr>subscriptions := [sub0]\<rparr>))) = 2
   \<and> pcA (run env0 env_later evt_deleted [True, False, True, False, True, False, True, False]
     (start (state0\<lparr>subscriptions := [sub0]\<rparr>))) = Returned
   \<and> pcB (run env0 env_later evt_deleted [True, False, True, False, True, False, True, False]
     (start (state0\<lparr>subscriptions := [sub0]\<rparr>))) = Returned
   \<and> subscriptions (store (run env0 env_later evt_deleted
       [True, False, True, False, True, False] (start (state0\<lparr>subscriptions := [sub0]\<rparr>))))
     = [sub0\<lparr>s_status := CANCELED, s_endedAt := Some 7000, s_updatedAt := 7000\<rparr>]
   \<and> subscriptions (store (run env0 env_later evt_deleted
       [True, False, True, False, True] (start (state0\<lparr>subscriptions := [sub0]\<rparr>))))
     = [sub0\<lparr>s_status := CANCELED, s_endedAt := Some 5000, s_updatedAt := 5000\<rparr>]"
  by code_simp

end
